theory Spec2Isabelle
  imports Main
begin

section \<open>JavaScript values\<close>

text \<open>
  The values that flow through \<^verbatim>\<open>src/lambdalocal.ts\<close>: events, handler results, errors
  and parsed request bodies. Numbers are restricted to the integers and \<open>NaN\<close>; objects
  carry data properties only, so the one callable \<open>then\<close> the model knows is that of
  a promise. An error has a name and a message. A promise is described by its fate: how
  it will settle, if it ever does.
\<close>

datatype 'v fate = Fulfils 'v | Rejects 'v | Unsettled

datatype jsval =
    JUndefined
  | JNull
  | JBool bool
  | JNum int
  | JNaN
  | JStr string
  | JArr "jsval list"
  | JObj "(string \<times> jsval) list"
  | JError string string
  | JPromise "jsval fate"

text \<open>JavaScript truthiness (\<^verbatim>\<open>if (v)\<close>, \<^verbatim>\<open>!v\<close>, \<^verbatim>\<open>a || b\<close>).\<close>

fun truthy :: "jsval \<Rightarrow> bool" where
  "truthy JUndefined = False"
| "truthy JNull = False"
| "truthy (JBool b) = b"
| "truthy (JNum n) = (n \<noteq> 0)"
| "truthy JNaN = False"
| "truthy (JStr s) = (s \<noteq> [])"
| "truthy (JArr vs) = True"
| "truthy (JObj ps) = True"
| "truthy (JError n m) = True"
| "truthy (JPromise f) = True"

text \<open>
  Property read \<^verbatim>\<open>v.name\<close>: a \<open>TypeError\<close> on \<open>null\<close> and \<open>undefined\<close>, the
  stored value on an object that has the property, \<open>undefined\<close> otherwise.
\<close>

fun lookup_prop :: "(string \<times> jsval) list \<Rightarrow> string \<Rightarrow> jsval" where
  "lookup_prop [] k = JUndefined"
| "lookup_prop ((k', v) # ps) k = (if k' = k then v else lookup_prop ps k)"

fun get_prop :: "jsval \<Rightarrow> string \<Rightarrow> jsval + jsval" where
  "get_prop JUndefined k = Inl (JError ''TypeError'' (''Cannot read properties of undefined''))"
| "get_prop JNull k = Inl (JError ''TypeError'' (''Cannot read properties of null''))"
| "get_prop (JObj ps) k = Inr (lookup_prop ps k)"
| "get_prop v k = Inr JUndefined"

section \<open>The process environment\<close>

text \<open>
  \<^verbatim>\<open>process.env\<close> maps names to strings; reading a name that is not there gives
  \<open>undefined\<close> (here \<open>None\<close>). An option string is truthy when it is present and not
  empty.
\<close>

type_synonym env = "string \<rightharpoonup> string"

definition truthy_str :: "string option \<Rightarrow> bool" where
  "truthy_str v = (case v of None \<Rightarrow> False | Some s \<Rightarrow> s \<noteq> [])"

text \<open>\<^verbatim>\<open>a || d\<close> where \<open>d\<close> is a string literal.\<close>

definition or_default :: "string option \<Rightarrow> string \<Rightarrow> string" where
  "or_default a d = (case a of None \<Rightarrow> d | Some s \<Rightarrow> if s = [] then d else s)"

text \<open>\<^verbatim>\<open>a || b\<close> on optional strings.\<close>

definition or_else :: "string option \<Rightarrow> string option \<Rightarrow> string option" where
  "or_else a b = (if truthy_str a then a else b)"

text \<open>
  \<^verbatim>\<open>updateEnv\<close> (lines 101-110): for each key of the object, in order, assign the
  value unless \<^verbatim>\<open>process.env[key]\<close> is truthy. The object is an association list in
  insertion order.
\<close>

fun updateEnv :: "(string \<times> string) list \<Rightarrow> env \<Rightarrow> env" where
  "updateEnv [] e = e"
| "updateEnv ((key, v) # kvs) e =
     updateEnv kvs (if \<not> truthy_str (e key) then e(key \<mapsto> v) else e)"

text \<open>
  The custom environment (lines 186-188) is assigned unconditionally, and removed by the
  finalization hook (lines 229-231).
\<close>

fun assignEnv :: "(string \<times> string) list \<Rightarrow> env \<Rightarrow> env" where
  "assignEnv [] e = e"
| "assignEnv ((key, v) # kvs) e = assignEnv kvs (e(key \<mapsto> v))"

fun deleteEnv :: "(string \<times> string) list \<Rightarrow> env \<Rightarrow> env" where
  "deleteEnv [] e = e"
| "deleteEnv ((key, v) # kvs) e = deleteEnv kvs (e(key := None))"

text \<open>Lines 211-212: the region variables, written after the profiles are loaded.\<close>

definition stage_region :: "string option \<Rightarrow> env \<Rightarrow> env" where
  "stage_region region e =
     (let e1 = e(''AWS_REGION'' \<mapsto> or_default region (or_default (e ''AWS_REGION'') ''us-east-1''))
      in e1(''AWS_DEFAULT_REGION'' \<mapsto>
              or_default region (or_default (e1 ''AWS_DEFAULT_REGION'') ''us-east-1'')))"

section \<open>The host: Node.js and the helpers outside this file\<close>

text \<open>
  Everything \<^verbatim>\<open>_executeSync\<close> asks of its surroundings is a field of the host, so that
  the theorems hold for every platform: the built-ins \<^verbatim>\<open>JSON.parse\<close>,
  \<^verbatim>\<open>path.basename\<close>, \<^verbatim>\<open>path.extname\<close>, \<^verbatim>\<open>path.dirname\<close>, \<^verbatim>\<open>os.freemem\<close>,
  \<^verbatim>\<open>process.version\<close>, \<^verbatim>\<open>process.cwd\<close>, the resolved time zone, \<^verbatim>\<open>fs.existsSync\<close>,
  \<^verbatim>\<open>require\<close> and \<^verbatim>\<open>dotenv.config\<close>, and the helpers of \<^verbatim>\<open>lib/utils.js\<close>
  (\<^verbatim>\<open>getAbsolutePath\<close>, \<^verbatim>\<open>get_node_major_version\<close>, \<^verbatim>\<open>loadAWSCredentials\<close>).
  A handler is seen through what it does to its context: the completion calls it makes
  before it returns, and how it returns.
\<close>

datatype ctx_call = Done jsval jsval | Succeed jsval | Fail jsval

datatype outcome = Returns jsval | Throws jsval

record behaviour =
  sync_calls :: "ctx_call list"
  finish :: outcome

type_synonym handler = "jsval \<Rightarrow> behaviour"

type_synonym module = "(string \<times> handler) list"

record host =
  json_parse :: "string \<Rightarrow> jsval option"
  basename :: "string \<Rightarrow> string \<Rightarrow> string"
  extname :: "string \<Rightarrow> string"
  dirname :: "string \<Rightarrow> string"
  getAbsolutePath :: "string \<Rightarrow> string"
  get_node_major_version :: nat
  freemem :: nat
  node_version :: string
  cwd :: string
  timeZone :: string
  existsSync :: "string \<Rightarrow> bool"
  require_module :: "string \<Rightarrow> jsval + module"
  dotenv_config :: "string \<Rightarrow> env \<Rightarrow> env"
  loadAWSCredentials :: "string \<Rightarrow> string option \<Rightarrow> env \<Rightarrow> env"

text \<open>\<^verbatim>\<open>Number.prototype.toString\<close> on a natural number.\<close>

fun dec :: "nat \<Rightarrow> string" where
  "dec n = (if n < 10 then [''0123456789'' ! n]
            else dec (n div 10) @ [''0123456789'' ! (n mod 10)])"

declare dec.simps [simp del]

section \<open>Options and state\<close>

datatype event_src = EventValue jsval | EventProducer outcome

datatype callback = UserCallback | FutureCallback

record options =
  event :: event_src
  lambdaFunc :: "module option"
  lambdaPath :: "string option"
  lambdaHandler :: "string option"
  profilePath :: "string option"
  profileName :: "string option"
  region :: "string option"
  environment :: "(string \<times> string) list option"
  envdestroy :: "bool option"
  envfile :: "string option"
  callbackWaitsForEmptyEventLoop :: "bool option"
  timeoutMs :: "nat option"
  verboseLevel :: "nat option"
  callback :: "callback option"
  clientContext :: jsval

datatype completion = Pending | Completed_success jsval | Completed_failure jsval

datatype timer = Unarmed | Armed nat | Cleared

datatype promise = PPending | PFulfilled jsval | PRejected jsval | PFollows "jsval fate"

text \<open>
  The process: its environment, the modules loaded by \<^verbatim>\<open>require\<close> (latest first), the
  console warnings, the argument pairs the caller's callback has received (oldest first)
  and the future made by \<^verbatim>\<open>execute\<close>.
\<close>

record pstate =
  penv :: env
  loaded :: "string list"
  console :: "string list"
  cb_calls :: "(jsval \<times> jsval) list"
  future :: promise

text \<open>
  Modelled from the spec: the class \<^verbatim>\<open>Context\<close> of \<^verbatim>\<open>lib/context.js\<close>, which is not
  among the sources. Its fields are the ones \<^verbatim>\<open>_executeSync\<close> passes to
  \<^verbatim>\<open>_initialize\<close> (lines 221-235; the finalization hook is kept as the list of custom
  variables it deletes) together with the completion state, the timer handle and a
  count of the runs of the finalization hook.
\<close>

record invocation_context =
  functionName :: string
  timeout_budget :: nat
  waits_for_empty_loop :: bool
  verbose :: nat
  client_context :: jsval
  ctx_callback :: "callback option"
  teardown :: "(string \<times> string) list"
  completion :: completion
  timer :: timer
  final_runs :: nat

datatype result = Success jsval | Failure jsval

text \<open>
  The completion callback. The one \<^verbatim>\<open>execute\<close> installs (lines 43-48) rejects the future
  when the error argument is truthy and then resolves it; a settled future ignores both.
  Resolving with a promise makes the future follow that promise.
\<close>

definition rejectP :: "jsval \<Rightarrow> promise \<Rightarrow> promise" where
  "rejectP e P = (if P = PPending then PRejected e else P)"

definition resolveP :: "jsval \<Rightarrow> promise \<Rightarrow> promise" where
  "resolveP v P =
     (if P = PPending then (case v of JPromise f \<Rightarrow> PFollows f | _ \<Rightarrow> PFulfilled v) else P)"

definition invoke_callback :: "callback option \<Rightarrow> jsval \<Rightarrow> jsval \<Rightarrow> pstate \<Rightarrow> pstate" where
  "invoke_callback cb err val p =
     (case cb of
        None \<Rightarrow> p
      | Some UserCallback \<Rightarrow> p\<lparr>cb_calls := cb_calls p @ [(err, val)]\<rparr>
      | Some FutureCallback \<Rightarrow>
          p\<lparr>future := resolveP val (if truthy err then rejectP err (future p) else future p)\<rparr>)"

text \<open>
  Modelled from the spec: the terminal states of the data model (spec 3), and how an
  outcome reaches the callback: a success as \<^verbatim>\<open>(null, value)\<close>, a failure as
  \<^verbatim>\<open>(error, undefined)\<close>.
\<close>

fun completion_of :: "result \<Rightarrow> completion" where
  "completion_of (Success v) = Completed_success v"
| "completion_of (Failure e) = Completed_failure e"

definition callback_args :: "result \<Rightarrow> jsval \<times> jsval" where
  "callback_args r = (case r of Success v \<Rightarrow> (JNull, v) | Failure e \<Rightarrow> (e, JUndefined))"

text \<open>
  Modelled from the spec: the single guarded completion routine of \<^verbatim>\<open>lib/context.js\<close>
  (spec 4.3). The first call moves the state out of \<open>Pending\<close>, clears an armed
  timer, runs the finalization hook (lines 227-233 of the source: delete the custom
  variables when destruction was asked for) and hands the outcome to the callback; every
  later call returns the state as it is.
\<close>

definition complete :: "result \<Rightarrow> pstate \<times> invocation_context \<Rightarrow> pstate \<times> invocation_context" where
  "complete r pc =
     (let (p, c) = pc in
      if completion c \<noteq> Pending then (p, c)
      else
        let c' = c\<lparr>completion := completion_of r,
                   timer := (case timer c of Armed n \<Rightarrow> Cleared | t \<Rightarrow> t),
                   final_runs := Suc (final_runs c)\<rparr>;
            p1 = p\<lparr>penv := deleteEnv (teardown c) (penv p)\<rparr>
        in (invoke_callback (ctx_callback c) (fst (callback_args r)) (snd (callback_args r)) p1, c'))"

text \<open>
  Modelled from the spec: \<^verbatim>\<open>succeed\<close>, \<^verbatim>\<open>fail\<close> and \<^verbatim>\<open>done\<close> of the context, all
  through \<open>complete\<close>; \<^verbatim>\<open>done(error, value)\<close> is a failure when its error argument is
  truthy, as at line 44 of the source.
\<close>

fun apply_call :: "ctx_call \<Rightarrow> pstate \<times> invocation_context \<Rightarrow> pstate \<times> invocation_context" where
  "apply_call (Succeed v) pc = complete (Success v) pc"
| "apply_call (Fail e) pc = complete (Failure e) pc"
| "apply_call (Done e v) pc = complete (if truthy e then Failure e else Success v) pc"

fun apply_calls :: "ctx_call list \<Rightarrow> pstate \<times> invocation_context \<Rightarrow> pstate \<times> invocation_context" where
  "apply_calls [] pc = pc"
| "apply_calls (x # xs) pc = apply_calls xs (apply_call x pc)"

text \<open>
  Modelled from the spec: the timer of \<^verbatim>\<open>lib/context.js\<close>. \<^verbatim>\<open>_init_timeout\<close> arms it
  for the budget; when it fires while armed, the context is completed with a
  \<open>TimeoutError\<close> (whose message the spec does not give).
\<close>

definition timeout_error :: jsval where
  "timeout_error = JError ''TimeoutError'' ''Task timed out''"

definition init_timeout :: "pstate \<times> invocation_context \<Rightarrow> pstate \<times> invocation_context" where
  "init_timeout pc = (let (p, c) = pc in (p, c\<lparr>timer := Armed (timeout_budget c)\<rparr>))"

definition timer_fires :: "pstate \<times> invocation_context \<Rightarrow> pstate \<times> invocation_context" where
  "timer_fires pc =
     (let (p, c) = pc in
      case timer c of
        Armed n \<Rightarrow> complete (Failure timeout_error) (p, c)
      | _ \<Rightarrow> (p, c))"

text \<open>
  What can happen to a context over its lifetime: a completion call (from the handler,
  from the settlement of the future the handler returned, or the scheduler's own
  \<^verbatim>\<open>succeed(null)\<close> and \<^verbatim>\<open>fail(err)\<close>), or the expiry of the timer.
\<close>

datatype ctx_event = Call ctx_call | TimerFires

fun ctx_step :: "ctx_event \<Rightarrow> pstate \<times> invocation_context \<Rightarrow> pstate \<times> invocation_context" where
  "ctx_step (Call x) pc = apply_call x pc"
| "ctx_step TimerFires pc = timer_fires pc"

fun ctx_run :: "ctx_event list \<Rightarrow> pstate \<times> invocation_context \<Rightarrow> pstate \<times> invocation_context" where
  "ctx_run [] pc = pc"
| "ctx_run (ev # evs) pc = ctx_run evs (ctx_step ev pc)"

text \<open>The outcome an event asks for.\<close>

fun event_result :: "ctx_event \<Rightarrow> result" where
  "event_result (Call (Succeed v)) = Success v"
| "event_result (Call (Fail e)) = Failure e"
| "event_result (Call (Done e v)) = (if truthy e then Failure e else Success v)"
| "event_result TimerFires = Failure timeout_error"

section \<open>The scheduler: \<^verbatim>\<open>_executeSync\<close>\<close>

text \<open>Lines 116, 123, 124: the defaults of the handler name, the flag and the budget.\<close>

definition handler_name :: "options \<Rightarrow> string" where
  "handler_name opts = or_default (lambdaHandler opts) ''handler''"

definition waits_flag :: "options \<Rightarrow> bool" where
  "waits_flag opts = (case callbackWaitsForEmptyEventLoop opts of None \<Rightarrow> False | Some b \<Rightarrow> b)"

definition timeout_of :: "options \<Rightarrow> nat" where
  "timeout_of opts = (case timeoutMs opts of None \<Rightarrow> 3000 | Some n \<Rightarrow> if n = 0 then 3000 else n)"

text \<open>
  Lines 129-139: a truthy client context is parsed when it is a string; a string that
  does not parse raises a \<open>SyntaxError\<close>.
\<close>

definition client_context_error :: jsval where
  "client_context_error = JError ''SyntaxError'' ''clientContext is an invalid stringified JS object''"

definition client_context_of :: "host \<Rightarrow> jsval \<Rightarrow> jsval + jsval" where
  "client_context_of h cc =
     (if truthy cc then
        (case cc of
           JStr s \<Rightarrow> (case json_parse h s of None \<Rightarrow> Inl client_context_error | Some v \<Rightarrow> Inr v)
         | _ \<Rightarrow> Inr cc)
      else Inr JNull)"

text \<open>Line 142.\<close>

definition both_handlers_error :: jsval where
  "both_handlers_error = JError ''SyntaxError'' ''Cannot specify both lambdaFunc and lambdaPath !''"

text \<open>Lines 151-153: a truthy path is made absolute.\<close>

definition absolute_path :: "host \<Rightarrow> string option \<Rightarrow> string option" where
  "absolute_path h path = (if truthy_str path then map_option (getAbsolutePath h) path else path)"

text \<open>
  Lines 156-178: the default variables, in the order the object receives them. The
  second argument is the handler name, the third the path after line 152.
\<close>

definition env_vars :: "host \<Rightarrow> string \<Rightarrow> string option \<Rightarrow> (string \<times> string) list" where
  "env_vars h name path =
     [(''AWS_LAMBDA_FUNCTION_NAME'', name),
      (''AWS_LAMBDA_FUNCTION_MEMORY_SIZE'', dec (freemem h div 1048576)),
      (''AWS_LAMBDA_FUNCTION_VERSION'', ''1.0''),
      (''AWS_EXECUTION_ENV'', ''AWS_Lambda_nodejs'' @ drop 1 (node_version h)),
      (''LAMBDA_CONSOLE_SOCKET'', ''14''),
      (''LAMBDA_CONTROL_SOCKET'', ''11''),
      (''LAMBDA_RUNTIME_DIR'', cwd h),
      (''NODE_PATH'', getAbsolutePath h ''node_modules''),
      (''TZ'', timeZone h)] @
     (case path of
        Some p \<Rightarrow>
          if p \<noteq> [] then
            [(''LAMBDA_TASK_ROOT'', dirname h p),
             (''_HANDLER'', basename h p (extname h p) @ ''.'' @ name)]
          else [(''LAMBDA_TASK_ROOT'', cwd h), (''_HANDLER'', ''index.'' @ name)]
      | None \<Rightarrow> [(''LAMBDA_TASK_ROOT'', cwd h), (''_HANDLER'', ''index.'' @ name)])"

text \<open>Lines 197-208: the profiles, from the default files when they exist and from the given one.\<close>

definition load_profiles :: "host \<Rightarrow> string option \<Rightarrow> string option \<Rightarrow> env \<Rightarrow> env" where
  "load_profiles h ppath pname e =
     (let ppath' = or_else ppath (e ''AWS_SHARED_CREDENTIALS_FILE'');
          default_config_file = getAbsolutePath h ''~/.aws/config'';
          default_credentials_file = getAbsolutePath h ''~/.aws/credentials'';
          e1 = (if existsSync h default_config_file
                then loadAWSCredentials h default_config_file pname e else e);
          e2 = (if existsSync h default_credentials_file
                then loadAWSCredentials h default_credentials_file pname e1 else e1)
      in (case ppath' of
            Some f \<Rightarrow> if f \<noteq> [] then loadAWSCredentials h f pname e2 else e2
          | None \<Rightarrow> e2))"

text \<open>
  Lines 179-208: what \<^verbatim>\<open>_executeSync\<close> writes to \<^verbatim>\<open>process.env\<close> before the region
  variables: the defaults, the custom environment, the environment file, the profiles.
  The profile name was read at line 118, from the environment as it was on entry.
\<close>

definition stage_before_region :: "host \<Rightarrow> options \<Rightarrow> string option \<Rightarrow> env \<Rightarrow> env" where
  "stage_before_region h opts pname e =
     (let e1 = updateEnv (env_vars h (handler_name opts) (absolute_path h (lambdaPath opts))) e;
          e2 = (case environment opts of None \<Rightarrow> e1 | Some kvs \<Rightarrow> assignEnv kvs e1);
          e3 = (case envfile opts of None \<Rightarrow> e2 | Some f \<Rightarrow> dotenv_config h f e2)
      in load_profiles h (profilePath opts) pname e3)"

text \<open>Lines 179-212: all of the staging, done before the handler is loaded.\<close>

definition stage_env :: "host \<Rightarrow> options \<Rightarrow> string option \<Rightarrow> env \<Rightarrow> env" where
  "stage_env h opts pname e = stage_region (region opts) (stage_before_region h opts pname e)"

text \<open>
  Lines 220-237: the fresh context. The finalization hook deletes the custom variables
  when there are some and \<^verbatim>\<open>envdestroy\<close> is truthy.
\<close>

definition teardown_of :: "options \<Rightarrow> (string \<times> string) list" where
  "teardown_of opts =
     (case environment opts of
        None \<Rightarrow> []
      | Some kvs \<Rightarrow> if envdestroy opts = Some True then kvs else [])"

definition new_context :: "options \<Rightarrow> bool \<Rightarrow> jsval \<Rightarrow> invocation_context" where
  "new_context opts waits cc =
     \<lparr>functionName = handler_name opts,
      timeout_budget = timeout_of opts,
      waits_for_empty_loop = waits,
      verbose = (case verboseLevel opts of None \<Rightarrow> 3 | Some v \<Rightarrow> v),
      client_context = cc,
      ctx_callback = callback opts,
      teardown = teardown_of opts,
      completion = Pending,
      timer = Unarmed,
      final_runs = 0\<rparr>"

text \<open>
  Lines 243-247: without an in-memory handler the module is loaded from the path;
  \<^verbatim>\<open>require.resolve\<close> raises on a path that is missing or empty.
\<close>

definition load_handler :: "host \<Rightarrow> options \<Rightarrow> string option \<Rightarrow> pstate \<Rightarrow> jsval + module \<times> pstate" where
  "load_handler h opts path p =
     (case lambdaFunc opts of
        Some m \<Rightarrow> Inr (m, p)
      | None \<Rightarrow>
          (case path of
             None \<Rightarrow> Inl (JError ''TypeError'' ''The id argument must be of type string'')
           | Some f \<Rightarrow>
               if f = [] then Inl (JError ''TypeError'' ''The id argument must be a non-empty string'')
               else (case require_module h f of
                       Inl e \<Rightarrow> Inl e
                     | Inr m \<Rightarrow> Inr (m, p\<lparr>loaded := f # loaded p\<rparr>))))"

text \<open>Lines 250-252.\<close>

fun resolve_event :: "event_src \<Rightarrow> jsval + jsval" where
  "resolve_event (EventValue v) = Inr v"
| "resolve_event (EventProducer (Returns v)) = Inr v"
| "resolve_event (EventProducer (Throws e)) = Inl e"

text \<open>
  What \<^verbatim>\<open>result.then\<close> is for a truthy result: the method of a promise, a data property
  (calling it raises a \<open>TypeError\<close> when it is truthy), or nothing.
\<close>

datatype then_kind = NoThen | ThenMethod "jsval fate" | ThenNotCallable

fun then_of :: "jsval \<Rightarrow> then_kind" where
  "then_of (JPromise f) = ThenMethod f"
| "then_of (JObj ps) = (if truthy (lookup_prop ps ''then'') then ThenNotCallable else NoThen)"
| "then_of v = NoThen"

text \<open>
  Lines 259-265, on the value the handler returned. The third component is the fate of
  the future that was wired to \<^verbatim>\<open>succeed\<close> and \<^verbatim>\<open>fail\<close>, if one was.
\<close>

definition after_return ::
  "jsval \<Rightarrow> pstate \<times> invocation_context \<Rightarrow>
   jsval \<times> (pstate \<times> invocation_context) + (pstate \<times> invocation_context) \<times> jsval fate option" where
  "after_return r pc =
     (if truthy r then
        (case then_of r of
           ThenMethod f \<Rightarrow> Inr (pc, Some f)
         | ThenNotCallable \<Rightarrow> Inl (JError ''TypeError'' ''result.then is not a function'', pc)
         | NoThen \<Rightarrow> Inr (apply_call (Succeed JNull) pc, None))
      else Inr (pc, None))"

text \<open>
  Lines 242-265, the body of the \<^verbatim>\<open>try\<close>: an exception comes with the state in which
  it was raised.
\<close>

definition try_body ::
  "host \<Rightarrow> options \<Rightarrow> string option \<Rightarrow> pstate \<times> invocation_context \<Rightarrow>
   jsval \<times> (pstate \<times> invocation_context) + (pstate \<times> invocation_context) \<times> jsval fate option" where
  "try_body h opts path pc =
     (case load_handler h opts path (fst pc) of
        Inl e \<Rightarrow> Inl (e, pc)
      | Inr (m, p1) \<Rightarrow>
          (case resolve_event (event opts) of
             Inl e \<Rightarrow> Inl (e, (p1, snd pc))
           | Inr ev \<Rightarrow>
               (let pc2 = init_timeout (p1, snd pc) in
                case map_of m (handler_name opts) of
                  None \<Rightarrow> Inl (JError ''TypeError'' ''lambdaFunc[lambdaHandler] is not a function'', pc2)
                | Some f \<Rightarrow>
                    (let b = f ev; pc3 = apply_calls (sync_calls b) pc2 in
                     case finish b of
                       Throws e \<Rightarrow> Inl (e, pc3)
                     | Returns r \<Rightarrow> after_return r pc3))))"

record invocation =
  proc :: pstate
  ctx :: invocation_context
  wired :: "jsval fate option"

text \<open>Lines 241-268: whatever the body raises goes to \<^verbatim>\<open>ctx.fail\<close>.\<close>

definition run_handler ::
  "host \<Rightarrow> options \<Rightarrow> string option \<Rightarrow> pstate \<times> invocation_context \<Rightarrow> invocation" where
  "run_handler h opts path pc =
     (case try_body h opts path pc of
        Inl (err, pc') \<Rightarrow>
          (let pc'' = apply_call (Fail err) pc' in \<lparr>proc = fst pc'', ctx = snd pc'', wired = None\<rparr>)
      | Inr (pc', w) \<Rightarrow> \<lparr>proc = fst pc', ctx = snd pc', wired = w\<rparr>)"

text \<open>
  Lines 129-144, the checks: the client context, then the two ways of naming the
  handler. An exception comes with the state of the process when it is raised.
\<close>

definition validate :: "host \<Rightarrow> options \<Rightarrow> pstate \<Rightarrow> jsval \<times> pstate + jsval" where
  "validate h opts p =
     (case client_context_of h (clientContext opts) of
        Inl e \<Rightarrow> Inl (e, p)
      | Inr cc \<Rightarrow>
          if lambdaFunc opts \<noteq> None \<and> truthy_str (lambdaPath opts)
          then Inl (both_handlers_error, p)
          else Inr cc)"

text \<open>
  Lines 146-239: the warning for an unsupported flag, the staging of the environment
  (with the profile name read at line 118) and the fresh context.
\<close>

definition prepare :: "host \<Rightarrow> options \<Rightarrow> jsval \<Rightarrow> pstate \<Rightarrow> pstate \<times> invocation_context" where
  "prepare h opts cc p =
     (let pname = or_else (profileName opts)
                    (or_else (penv p ''AWS_PROFILE'') (penv p ''AWS_DEFAULT_PROFILE''));
          unsupported = (waits_flag opts \<and> get_node_major_version h < 16);
          p1 = (if unsupported
                then p\<lparr>console := console p @
                          [''callbackWaitsForEmptyEventLoop not supported on node < 16'']\<rparr>
                else p);
          waits = (if unsupported then False else waits_flag opts);
          p2 = p1\<lparr>penv := stage_env h opts pname (penv p1)\<rparr>
      in (p2, new_context opts waits cc))"

text \<open>
  \<^verbatim>\<open>_executeSync\<close> (lines 112-269). The result is \<open>Inl\<close> of the exception and the state
  of the process when it was raised, or \<open>Inr\<close> of the invocation as it stands when the
  function returns.
\<close>

definition executeSync :: "host \<Rightarrow> options \<Rightarrow> pstate \<Rightarrow> jsval \<times> pstate + invocation" where
  "executeSync h opts p =
     (case validate h opts p of
        Inl ep \<Rightarrow> Inl ep
      | Inr cc \<Rightarrow>
          Inr (run_handler h opts (absolute_path h (lambdaPath opts)) (prepare h opts cc p)))"

section \<open>The entry point: \<^verbatim>\<open>execute\<close>\<close>

text \<open>
  Options are objects, passed by reference: the heap is the list of the objects that
  exist, and a reference is an index into it. \<^verbatim>\<open>Object.assign({}, opts)\<close> allocates a
  new object with the fields of the old one.
\<close>

type_synonym heap = "options list"

datatype returned = ReturnsUndefined | ReturnsFuture

record execution =
  heap_after :: heap
  returned :: returned
  proc_after :: pstate
  started :: "invocation option"

text \<open>
  \<^verbatim>\<open>execute\<close> (lines 36-52). With a callback the options object itself goes to
  \<^verbatim>\<open>_executeSync\<close>, and what that raises leaves \<^verbatim>\<open>execute\<close>. Without one, a future is
  made, the options are copied, the callback of lines 43-48 is stored in the copy and the
  copy goes to \<^verbatim>\<open>_executeSync\<close>; what that raises inside the executor rejects the
  future. Reading a field of a reference to nothing raises a \<open>TypeError\<close>.
\<close>

definition execute :: "host \<Rightarrow> heap \<Rightarrow> nat \<Rightarrow> pstate \<Rightarrow> jsval \<times> pstate + execution" where
  "execute h hp a p =
     (if \<not> a < length hp then Inl (JError ''TypeError'' ''Cannot read properties of undefined'', p)
      else if callback (hp ! a) \<noteq> None then
        (case executeSync h (hp ! a) p of
           Inl ep \<Rightarrow> Inl ep
         | Inr iv \<Rightarrow>
             Inr \<lparr>heap_after = hp, returned = ReturnsUndefined, proc_after = proc iv,
                  started = Some iv\<rparr>)
      else
        (let p0 = p\<lparr>future := PPending\<rparr>;
             b = length hp;
             hp1 = hp @ [hp ! a];
             hp2 = hp1[b := (hp1 ! b)\<lparr>callback := Some FutureCallback\<rparr>]
         in case executeSync h (hp2 ! b) p0 of
              Inl (e, p') \<Rightarrow>
                Inr \<lparr>heap_after = hp2, returned = ReturnsFuture,
                     proc_after = p'\<lparr>future := rejectP e (future p')\<rparr>, started = None\<rparr>
            | Inr iv \<Rightarrow>
                Inr \<lparr>heap_after = hp2, returned = ReturnsFuture, proc_after = proc iv,
                     started = Some iv\<rparr>))"

section \<open>The HTTP front end: \<^verbatim>\<open>watch\<close>\<close>

record request =
  content_type :: "string option"
  body :: string

text \<open>
  What the server does for a request: it ends the response with a status and the object
  it serializes, or it starts an invocation with \<^verbatim>\<open>execute\<close> on the given options
  (the answer of the invocation comes later, when its future settles). The log lines are
  left out.
\<close>

datatype action = Respond nat jsval | Invoke options

text \<open>Lines 60-64: \<^verbatim>\<open>handle_error\<close>.\<close>

definition handle_error :: "jsval \<Rightarrow> action" where
  "handle_error error = Respond 500 (JObj [(''error'', error)])"

text \<open>
  \<^verbatim>\<open>_getRequestPayload\<close> (lines 87-99), once the body has arrived: the argument pairs
  with which the continuation is called, in order, or the exception that leaves the
  listener of the \<open>end\<close> event.
\<close>

definition invalid_body :: jsval where
  "invalid_body = JStr (''Invalid body (Expected '' @ [CHR 0x22] @ ''event'' @ [CHR 0x22] @ '' property)'')"

definition getRequestPayload :: "host \<Rightarrow> string \<Rightarrow> jsval + (jsval \<times> jsval) list" where
  "getRequestPayload h b =
     (case json_parse h b of
        None \<Rightarrow> Inl (JError ''SyntaxError'' ''Unexpected token in JSON'')
      | Some payload \<Rightarrow>
          (case get_prop payload ''event'' of
             Inl e \<Rightarrow> Inl e
           | Inr ev \<Rightarrow>
               Inr ((if \<not> truthy ev then [(invalid_body, JUndefined)] else []) @ [(JNull, ev)])))"

text \<open>
  Lines 67-77, the continuation: an error is answered with \<^verbatim>\<open>handle_error\<close>, otherwise
  an invocation is started with the event of the request written over the options of the
  server.
\<close>

definition on_payload :: "options \<Rightarrow> jsval \<times> jsval \<Rightarrow> action" where
  "on_payload opts er =
     (if truthy (fst er) then handle_error (fst er)
      else Invoke (opts\<lparr>event := EventProducer (Returns (snd er))\<rparr>))"

text \<open>Lines 70-76: the answer when the future of the invocation has settled.\<close>

fun answer :: "promise \<Rightarrow> action option" where
  "answer (PFulfilled d) = Some (Respond 200 (JObj [(''data'', d)]))"
| "answer (PRejected e) = Some (handle_error e)"
| "answer P = None"

text \<open>
  Lines 58-81, the listener of one request: the actions it takes, or the exception that
  nothing catches.
\<close>

definition handle_request :: "host \<Rightarrow> options \<Rightarrow> request \<Rightarrow> jsval + action list" where
  "handle_request h opts req =
     (if content_type req \<noteq> Some ''application/json''
      then Inr [handle_error (JStr ''Invalid header Content-Type (Expected application/json)'')]
      else (case getRequestPayload h (body req) of
              Inl e \<Rightarrow> Inl e
            | Inr calls \<Rightarrow> Inr (map (on_payload opts) calls)))"

text \<open>
  The server over the requests it receives: an exception that nothing catches ends the
  process, and the requests after it are not served.
\<close>

datatype served = Served "action list" | Crashed jsval

fun serve :: "host \<Rightarrow> options \<Rightarrow> request list \<Rightarrow> served list" where
  "serve h opts [] = []"
| "serve h opts (req # reqs) =
     (case handle_request h opts req of
        Inl e \<Rightarrow> [Crashed e]
      | Inr acts \<Rightarrow> Served acts # serve h opts reqs)"

text \<open>Lines 54-57: \<^verbatim>\<open>watch\<close> sets a falsy verbosity to 0 before it starts the server.\<close>

definition watch :: "host \<Rightarrow> options \<Rightarrow> request list \<Rightarrow> served list" where
  "watch h opts reqs =
     serve h (opts\<lparr>verboseLevel := Some (case verboseLevel opts of None \<Rightarrow> 0 | Some v \<Rightarrow> v)\<rparr>) reqs"

section \<open>A POSIX host\<close>

text \<open>
  A concrete host, on which the theorems are tried: \<^verbatim>\<open>path.posix\<close> of Node.js for
  \<^verbatim>\<open>extname\<close> and \<^verbatim>\<open>dirname\<close>, and for \<^verbatim>\<open>basename\<close> called with a suffix that is
  empty or the extension of the same path, which is how line 174 calls it. The last
  component of a path is what follows the last slash, trailing slashes apart.
\<close>

definition last_component :: "string \<Rightarrow> string" where
  "last_component p = rev (takeWhile (\<lambda>c. c \<noteq> CHR ''/'') (dropWhile (\<lambda>c. c = CHR ''/'') (rev p)))"

definition posix_extname :: "string \<Rightarrow> string" where
  "posix_extname p =
     (let b = last_component p;
          ext = rev (takeWhile (\<lambda>c. c \<noteq> CHR ''.'') (rev b))
      in if CHR ''.'' \<notin> set b \<or> length b = Suc (length ext) \<or> b = ''..'' then []
         else CHR ''.'' # ext)"

definition posix_basename :: "string \<Rightarrow> string \<Rightarrow> string" where
  "posix_basename p suffix =
     (let b = last_component p
      in if suffix \<noteq> [] \<and> length suffix < length b \<and> drop (length b - length suffix) b = suffix
         then take (length b - length suffix) b
         else b)"

definition posix_dirname :: "string \<Rightarrow> string" where
  "posix_dirname p =
     (let r = dropWhile (\<lambda>c. c \<noteq> CHR ''/'') (dropWhile (\<lambda>c. c = CHR ''/'') (rev p));
          rooted = (take 1 p = ''/'')
      in if length r \<le> 1 then (if rooted then ''/'' else ''.'')
         else if rooted \<and> length r = 2 then ''//''
         else rev (tl r))"

text \<open>
  Modelled from the spec: \<^verbatim>\<open>getAbsolutePath\<close> of \<^verbatim>\<open>lib/utils.js\<close>, which is not among
  the sources, resolves a path to an absolute location: an absolute path is kept, any
  other is taken from the working directory.
\<close>

definition posix_absolute :: "string \<Rightarrow> string \<Rightarrow> string" where
  "posix_absolute wd p = (if take 1 p = ''/'' then p else wd @ ''/'' @ p)"

text \<open>
  The parser of the trial host knows four texts; \<^verbatim>\<open>JSON.parse\<close> agrees with it on each
  of them, and on the text \<open>{\<close>, which neither accepts.
\<close>

definition trial_parse :: "string \<Rightarrow> jsval option" where
  "trial_parse s =
     (if s = ''{}'' then Some (JObj [])
      else if s = ''{'' @ [CHR 0x22] @ ''event'' @ [CHR 0x22] @ '':0}'' then Some (JObj [(''event'', JNum 0)])
      else if s = ''{'' @ [CHR 0x22] @ ''event'' @ [CHR 0x22] @ '':{}}'' then Some (JObj [(''event'', JObj [])])
      else if s = ''null'' then Some JNull
      else None)"

definition echo_handler :: handler where
  "echo_handler ev = \<lparr>sync_calls = [Succeed ev], finish = Returns JUndefined\<rparr>"

definition trial_module :: module where
  "trial_module = [(''handler'', echo_handler)]"

definition trial_host :: host where
  "trial_host =
     \<lparr>json_parse = trial_parse,
      basename = posix_basename,
      extname = posix_extname,
      dirname = posix_dirname,
      getAbsolutePath = posix_absolute ''/srv/app'',
      get_node_major_version = 18,
      freemem = 4294967296,
      node_version = ''v18.19.0'',
      cwd = ''/srv/app'',
      timeZone = ''UTC'',
      existsSync = (\<lambda>f. False),
      require_module = (\<lambda>f. Inr trial_module),
      dotenv_config = (\<lambda>f e. e),
      loadAWSCredentials = (\<lambda>f n e. e)\<rparr>"

definition no_options :: options where
  "no_options =
     \<lparr>event = EventValue JUndefined, lambdaFunc = None, lambdaPath = None,
      lambdaHandler = None, profilePath = None, profileName = None, region = None,
      environment = None, envdestroy = None, envfile = None,
      callbackWaitsForEmptyEventLoop = None, timeoutMs = None, verboseLevel = None,
      callback = None, clientContext = JUndefined\<rparr>"

definition fresh_process :: pstate where
  "fresh_process = \<lparr>penv = Map.empty, loaded = [], console = [], cb_calls = [], future = PPending\<rparr>"

definition empty_region_env :: env where
  "empty_region_env = [''AWS_REGION'' \<mapsto> []]"

definition empty_tz_env :: env where
  "empty_tz_env = [''TZ'' \<mapsto> []]"

definition foo_bar_options :: options where
  "foo_bar_options = no_options\<lparr>lambdaPath := Some ''/a/b/foo.js'', lambdaHandler := Some ''bar''\<rparr>"

definition bar_options :: options where
  "bar_options = no_options\<lparr>lambdaHandler := Some ''bar''\<rparr>"

definition plain_request :: request where
  "plain_request = \<lparr>content_type = Some ''text/plain'', body = ''{}''\<rparr>"

definition null_request :: request where
  "null_request = \<lparr>content_type = Some ''application/json'', body = ''null''\<rparr>"

definition zero_event_body :: string where
  "zero_event_body = ''{'' @ [CHR 0x22] @ ''event'' @ [CHR 0x22] @ '':0}''"

definition both_options :: options where
  "both_options = no_options\<lparr>lambdaFunc := Some trial_module, lambdaPath := Some ''/a/b/foo.js'',
     callback := Some UserCallback\<rparr>"

definition both_bad_context_options :: options where
  "both_bad_context_options = both_options\<lparr>clientContext := JStr ''{''\<rparr>"

definition zero_handler :: handler where
  "zero_handler ev = \<lparr>sync_calls = [], finish = Returns (JNum 0)\<rparr>"

definition returns_zero_options :: options where
  "returns_zero_options =
     no_options\<lparr>lambdaFunc := Some [(''handler'', zero_handler)], callback := Some UserCallback\<rparr>"

definition seven_handler :: handler where
  "seven_handler ev = \<lparr>sync_calls = [], finish = Returns (JNum 7)\<rparr>"

definition returns_seven_options :: options where
  "returns_seven_options =
     no_options\<lparr>lambdaFunc := Some [(''handler'', seven_handler)], callback := Some UserCallback\<rparr>"

definition boom :: jsval where
  "boom = JError ''Error'' ''boom''"

definition boom_handler :: handler where
  "boom_handler ev = \<lparr>sync_calls = [], finish = Throws boom\<rparr>"

definition throws_boom_options :: options where
  "throws_boom_options =
     no_options\<lparr>lambdaFunc := Some [(''handler'', boom_handler)], callback := Some UserCallback\<rparr>"

definition done_boom_handler :: handler where
  "done_boom_handler ev = \<lparr>sync_calls = [Done JNull (JStr ''ok'')], finish = Throws boom\<rparr>"

definition done_then_throws_options :: options where
  "done_then_throws_options =
     no_options\<lparr>lambdaFunc := Some [(''handler'', done_boom_handler)], callback := Some UserCallback\<rparr>"

section \<open>Notions used in the statements\<close>

text \<open>A client context that line 132 cannot parse: a non-empty string that is not JSON.\<close>

definition bad_client_context :: "host \<Rightarrow> jsval \<Rightarrow> bool" where
  "bad_client_context h cc = (case cc of JStr s \<Rightarrow> s \<noteq> [] \<and> json_parse h s = None | _ \<Rightarrow> False)"

text \<open>
  The invariant of a context: the finalization hook has run once if the invocation is
  completed and not at all if it is pending, and a pending invocation has its timer
  armed.
\<close>

definition is_armed :: "timer \<Rightarrow> bool" where
  "is_armed t = (case t of Armed n \<Rightarrow> True | _ \<Rightarrow> False)"

definition once :: "invocation_context \<Rightarrow> bool" where
  "once c = (if completion c = Pending then final_runs c = 0 \<and> is_armed (timer c)
             else final_runs c = 1)"

text \<open>
  What the caller can see of a call of \<^verbatim>\<open>_executeSync\<close> that returned: the completion
  state, the calls of the callback and the future.
\<close>

definition observed ::
  "jsval \<times> pstate + invocation \<Rightarrow> (completion \<times> (jsval \<times> jsval) list \<times> promise) option" where
  "observed r =
     (case r of
        Inl ep \<Rightarrow> None
      | Inr iv \<Rightarrow> Some (completion (ctx iv), cb_calls (proc iv), future (proc iv)))"

section \<open>Environment staging\<close>

lemma updateEnv_other: "key \<notin> fst ` set vars \<Longrightarrow> updateEnv vars e key = e key"
  by (induction vars arbitrary: e) auto

lemma updateEnv_truthy: "truthy_str (e key) \<Longrightarrow> updateEnv vars e key = e key"
proof (induction vars arbitrary: e)
  case Nil
  then show ?case by simp
next
  case (Cons kv vars)
  obtain k' v' where kv: "kv = (k', v')" by (cases kv)
  have "truthy_str ((if \<not> truthy_str (e k') then e(k' \<mapsto> v') else e) key)"
    using Cons.prems by auto
  then have "updateEnv vars (if \<not> truthy_str (e k') then e(k' \<mapsto> v') else e) key
             = (if \<not> truthy_str (e k') then e(k' \<mapsto> v') else e) key"
    by (rule Cons.IH)
  then show ?case using Cons.prems kv by auto
qed

lemma updateEnv_falsy:
  "distinct (map fst vars) \<Longrightarrow> (key, v) \<in> set vars \<Longrightarrow> \<not> truthy_str (e key) \<Longrightarrow>
   updateEnv vars e key = Some v"
proof (induction vars arbitrary: e)
  case Nil
  then show ?case by simp
next
  case (Cons kv vars)
  obtain k' v' where kv: "kv = (k', v')" by (cases kv)
  show ?case
  proof (cases "k' = key")
    case True
    with Cons.prems kv have "v' = v" by (auto simp: image_iff)
    moreover from Cons.prems kv True have "key \<notin> fst ` set vars" by auto
    ultimately show ?thesis using Cons.prems kv True
      by (simp add: updateEnv_other)
  next
    case False
    with Cons.prems kv have "(key, v) \<in> set vars" by auto
    moreover have "\<not> truthy_str ((if \<not> truthy_str (e k') then e(k' \<mapsto> v') else e) key)"
      using Cons.prems False by simp
    ultimately show ?thesis using Cons.IH Cons.prems kv by simp
  qed
qed

lemma keys_env_vars: "map fst (env_vars h name path) =
  [''AWS_LAMBDA_FUNCTION_NAME'', ''AWS_LAMBDA_FUNCTION_MEMORY_SIZE'', ''AWS_LAMBDA_FUNCTION_VERSION'',
   ''AWS_EXECUTION_ENV'', ''LAMBDA_CONSOLE_SOCKET'', ''LAMBDA_CONTROL_SOCKET'', ''LAMBDA_RUNTIME_DIR'',
   ''NODE_PATH'', ''TZ'', ''LAMBDA_TASK_ROOT'', ''_HANDLER'']"
  by (simp add: env_vars_def split: option.splits)

lemma distinct_env_vars: "distinct (map fst (env_vars h name path))"
  unfolding keys_env_vars by code_simp

lemma region_not_default:
  "''AWS_REGION'' \<notin> fst ` set (env_vars h name path)"
  "''AWS_DEFAULT_REGION'' \<notin> fst ` set (env_vars h name path)"
  using keys_env_vars [of h name path] unfolding set_map [symmetric] by simp_all

lemma stage_before_region_trial:
  "k \<notin> fst ` set (env_vars trial_host (handler_name opts) (absolute_path trial_host (lambdaPath opts))) \<Longrightarrow>
   environment opts = None \<Longrightarrow>
   stage_before_region trial_host opts pname e k = e k"
  by (simp add: stage_before_region_def load_profiles_def updateEnv_other Let_def
        trial_host_def split: option.splits)

text \<open>
  C10. \<^verbatim>\<open>updateEnv\<close> takes a falsy value of the process environment for no value:
  for every default key of \<^verbatim>\<open>_executeSync\<close> whose variable is absent or is the empty
  string, staging writes the computed default over it; a variable with a non-empty value
  is kept. "Unless already in place" therefore means "unless truthy".
\<close>

theorem default_overwrites_falsy:
  assumes "(key, v) \<in> set (env_vars h name path)"
  shows "(e key = None \<or> e key = Some [] \<longrightarrow> updateEnv (env_vars h name path) e key = Some v)
       \<and> (\<forall>s. e key = Some s \<and> s \<noteq> [] \<longrightarrow> updateEnv (env_vars h name path) e key = Some s)"
proof (intro conjI impI allI)
  assume "e key = None \<or> e key = Some []"
  then have "\<not> truthy_str (e key)" by (auto simp: truthy_str_def)
  with assms show "updateEnv (env_vars h name path) e key = Some v"
    by (intro updateEnv_falsy distinct_env_vars)
next
  fix s assume "e key = Some s \<and> s \<noteq> []"
  then have "truthy_str (e key)" and "e key = Some s" by (simp_all add: truthy_str_def)
  then show "updateEnv (env_vars h name path) e key = Some s"
    by (simp add: updateEnv_truthy)
qed

text \<open>
  On the POSIX host, a time zone variable that is set to the empty string is replaced
  by the default.
\<close>

theorem default_overwrites_falsy_witness:
  "(''TZ'', ''UTC'') \<in> set (env_vars trial_host ''handler'' None)
   \<and> empty_tz_env ''TZ'' = Some []
   \<and> updateEnv (env_vars trial_host ''handler'' None) empty_tz_env ''TZ'' = Some ''UTC''"
proof -
  have m: "(''TZ'', ''UTC'') \<in> set (env_vars trial_host ''handler'' None)"
    by (simp add: env_vars_def trial_host_def)
  have e: "empty_tz_env ''TZ'' = Some []" by (simp add: empty_tz_env_def)
  from default_overwrites_falsy [OF m, of empty_tz_env] e m show ?thesis by simp
qed

text \<open>
  C5, as the code has it. After staging, each of the two region variables holds the
  region of the caller when that is a non-empty string; otherwise the value the process
  environment holds for it when lines 211-212 run (after the defaults, the custom
  environment, the environment file and the profiles), when that value is non-empty; and
  \<open>us-east-1\<close> otherwise, which includes a variable that is set to the empty string.
\<close>

theorem region_resolution:
  assumes "k = ''AWS_REGION'' \<or> k = ''AWS_DEFAULT_REGION''"
    and "cur = stage_before_region h opts pname e k"
  shows "(region opts = Some r \<and> r \<noteq> [] \<longrightarrow> stage_env h opts pname e k = Some r)
       \<and> (\<not> truthy_str (region opts) \<and> cur = Some v \<and> v \<noteq> [] \<longrightarrow> stage_env h opts pname e k = Some v)
       \<and> (\<not> truthy_str (region opts) \<and> (cur = None \<or> cur = Some []) \<longrightarrow>
            stage_env h opts pname e k = Some ''us-east-1'')"
  using assms
  by (auto simp: stage_env_def stage_region_def or_default_def truthy_str_def Let_def
           split: option.splits)

text \<open>
  The three cases on the POSIX host: a region given by the caller, a default region
  found in the environment, and neither.
\<close>

theorem region_resolution_witness:
  "stage_env trial_host (no_options\<lparr>region := Some ''eu-west-1''\<rparr>) None empty_region_env ''AWS_REGION''
     = Some ''eu-west-1''
   \<and> stage_env trial_host no_options None [''AWS_DEFAULT_REGION'' \<mapsto> ''ap-south-1''] ''AWS_DEFAULT_REGION''
     = Some ''ap-south-1''
   \<and> stage_env trial_host no_options None Map.empty ''AWS_REGION'' = Some ''us-east-1''"
proof -
  have k1: "''AWS_REGION'' = ''AWS_REGION'' \<or> ''AWS_REGION'' = ''AWS_DEFAULT_REGION''" by simp
  have k2: "''AWS_DEFAULT_REGION'' = ''AWS_REGION'' \<or> ''AWS_DEFAULT_REGION'' = ''AWS_DEFAULT_REGION''"
    by simp
  have c2: "stage_before_region trial_host no_options None [''AWS_DEFAULT_REGION'' \<mapsto> ''ap-south-1'']
              ''AWS_DEFAULT_REGION'' = Some ''ap-south-1''"
    by (subst stage_before_region_trial) (simp_all add: region_not_default no_options_def)
  have c3: "stage_before_region trial_host no_options None Map.empty ''AWS_REGION'' = None"
    by (subst stage_before_region_trial) (simp_all add: region_not_default no_options_def)
  have r: "\<not> truthy_str (region no_options)" by (simp add: no_options_def truthy_str_def)
  from region_resolution [OF k1 refl, of "no_options\<lparr>region := Some ''eu-west-1''\<rparr>" "''eu-west-1''"]
  have 1: "stage_env trial_host (no_options\<lparr>region := Some ''eu-west-1''\<rparr>) None empty_region_env
             ''AWS_REGION'' = Some ''eu-west-1''"
    by simp
  from region_resolution [OF k2 c2 [symmetric], of "''ap-south-1''"] r
  have 2: "stage_env trial_host no_options None [''AWS_DEFAULT_REGION'' \<mapsto> ''ap-south-1'']
             ''AWS_DEFAULT_REGION'' = Some ''ap-south-1''"
    by simp
  from region_resolution [OF k1 c3 [symmetric]] r
  have 3: "stage_env trial_host no_options None Map.empty ''AWS_REGION'' = Some ''us-east-1''"
    by simp
  from 1 2 3 show ?thesis by simp
qed

text \<open>
  C5, as it is written, fails: with no region from the caller, a region variable that is
  already set, to the empty string, is overwritten with \<open>us-east-1\<close>.
\<close>

theorem region_empty_overwritten:
  "region no_options = None
   \<and> empty_region_env ''AWS_REGION'' = Some []
   \<and> stage_env trial_host no_options None empty_region_env ''AWS_REGION'' = Some ''us-east-1''"
proof -
  have 1: "stage_before_region trial_host no_options None empty_region_env ''AWS_REGION''
           = empty_region_env ''AWS_REGION''"
    by (rule stage_before_region_trial) (simp_all add: region_not_default no_options_def)
  show ?thesis
    by (simp add: stage_env_def stage_region_def 1 or_default_def Let_def)
       (simp add: no_options_def empty_region_env_def)
qed

text \<open>
  C4. The value staged for \<^verbatim>\<open>_HANDLER\<close> is the base name of the handler path (made
  absolute at line 152) without its extension, a dot, and the export name; without a path
  the first part is \<open>index\<close>. The export name is \<^verbatim>\<open>lambdaHandler\<close>, or \<open>handler\<close>
  when that is not given. It is a default: \<^verbatim>\<open>updateEnv\<close> gives it to the variable when
  the variable has no truthy value yet.
\<close>

theorem handler_identifier:
  assumes "vars = env_vars h (handler_name opts) (absolute_path h (lambdaPath opts))"
  shows "(lambdaPath opts = Some P \<and> P \<noteq> [] \<and> getAbsolutePath h P = Q \<and> Q \<noteq> [] \<longrightarrow>
            map_of vars ''_HANDLER'' = Some (basename h Q (extname h Q) @ ''.'' @ handler_name opts))
       \<and> (lambdaPath opts = None \<or> lambdaPath opts = Some [] \<longrightarrow>
            map_of vars ''_HANDLER'' = Some (''index.'' @ handler_name opts))
       \<and> (lambdaHandler opts = Some H \<and> H \<noteq> [] \<longrightarrow> handler_name opts = H)
       \<and> (lambdaHandler opts = None \<or> lambdaHandler opts = Some [] \<longrightarrow> handler_name opts = ''handler'')
       \<and> (\<not> truthy_str (e ''_HANDLER'') \<longrightarrow> updateEnv vars e ''_HANDLER'' = map_of vars ''_HANDLER'')"
proof -
  have d: "distinct (map fst vars)" unfolding assms by (rule distinct_env_vars)
  have a: "lambdaPath opts = Some P \<and> P \<noteq> [] \<and> getAbsolutePath h P = Q \<and> Q \<noteq> [] \<longrightarrow>
            map_of vars ''_HANDLER'' = Some (basename h Q (extname h Q) @ ''.'' @ handler_name opts)"
    unfolding map_of_eq_Some_iff [OF d] unfolding assms
    by (auto simp: env_vars_def absolute_path_def truthy_str_def)
  have b: "lambdaPath opts = None \<or> lambdaPath opts = Some [] \<longrightarrow>
            map_of vars ''_HANDLER'' = Some (''index.'' @ handler_name opts)"
    unfolding map_of_eq_Some_iff [OF d] unfolding assms
    by (auto simp: env_vars_def absolute_path_def truthy_str_def)
  have c: "(lambdaHandler opts = Some H \<and> H \<noteq> [] \<longrightarrow> handler_name opts = H)
       \<and> (lambdaHandler opts = None \<or> lambdaHandler opts = Some [] \<longrightarrow> handler_name opts = ''handler'')"
    by (auto simp: handler_name_def or_default_def)
  have "''_HANDLER'' \<in> set (map fst vars)" unfolding assms keys_env_vars by simp
  then obtain v where v: "(''_HANDLER'', v) \<in> set vars" by auto
  then have m: "map_of vars ''_HANDLER'' = Some v" using d by simp
  have u: "\<not> truthy_str (e ''_HANDLER'') \<longrightarrow> updateEnv vars e ''_HANDLER'' = map_of vars ''_HANDLER''"
    unfolding m using updateEnv_falsy [OF d v] by simp
  from a b c u show ?thesis by blast
qed

text \<open>
  The two examples of the specification on the POSIX host: the path \<open>/a/b/foo.js\<close> with
  the export \<open>bar\<close> gives \<open>foo.bar\<close>, and the export \<open>bar\<close> without a path gives
  \<open>index.bar\<close>.
\<close>

theorem handler_identifier_witness:
  "updateEnv (env_vars trial_host (handler_name foo_bar_options)
                (absolute_path trial_host (lambdaPath foo_bar_options))) Map.empty ''_HANDLER''
     = Some ''foo.bar''
   \<and> updateEnv (env_vars trial_host (handler_name bar_options)
                (absolute_path trial_host (lambdaPath bar_options))) Map.empty ''_HANDLER''
     = Some ''index.bar''"
proof -
  let ?v1 = "env_vars trial_host (handler_name foo_bar_options)
                (absolute_path trial_host (lambdaPath foo_bar_options))"
  let ?v2 = "env_vars trial_host (handler_name bar_options)
                (absolute_path trial_host (lambdaPath bar_options))"
  have e: "\<not> truthy_str (Map.empty ''_HANDLER'')" by (simp add: truthy_str_def)
  have p1: "lambdaPath foo_bar_options = Some ''/a/b/foo.js'' \<and> ''/a/b/foo.js'' \<noteq> []
            \<and> getAbsolutePath trial_host ''/a/b/foo.js'' = ''/a/b/foo.js'' \<and> ''/a/b/foo.js'' \<noteq> []"
    by (simp add: foo_bar_options_def no_options_def trial_host_def posix_absolute_def)
  have h1: "lambdaHandler foo_bar_options = Some ''bar'' \<and> ''bar'' \<noteq> []"
    by (simp add: foo_bar_options_def no_options_def)
  have p2: "lambdaPath bar_options = None \<or> lambdaPath bar_options = Some []"
    by (simp add: bar_options_def no_options_def)
  have h2: "lambdaHandler bar_options = Some ''bar'' \<and> ''bar'' \<noteq> []"
    by (simp add: bar_options_def no_options_def)
  have x: "extname trial_host ''/a/b/foo.js'' = ''.js''"
    by (simp add: trial_host_def posix_extname_def last_component_def)
  have b: "basename trial_host ''/a/b/foo.js'' ''.js'' = ''foo''"
    by (simp add: trial_host_def posix_basename_def last_component_def)
  note t1 = handler_identifier [where h = trial_host and opts = foo_bar_options and P = "''/a/b/foo.js''"
         and Q = "''/a/b/foo.js''" and H = "''bar''" and e = Map.empty, OF refl]
  note t2 = handler_identifier [where h = trial_host and opts = bar_options and H = "''bar''"
         and e = Map.empty, OF refl]
  from t1 h1 have n1: "handler_name foo_bar_options = ''bar''" by blast
  from t2 h2 have n2: "handler_name bar_options = ''bar''" by blast
  from t1 p1 have "map_of ?v1 ''_HANDLER''
      = Some (basename trial_host ''/a/b/foo.js'' (extname trial_host ''/a/b/foo.js'') @ ''.''
                @ handler_name foo_bar_options)"
    by blast
  then have m1: "map_of ?v1 ''_HANDLER'' = Some ''foo.bar''" by (simp add: x b n1)
  from t2 p2 have "map_of ?v2 ''_HANDLER'' = Some (''index.'' @ handler_name bar_options)" by blast
  then have m2: "map_of ?v2 ''_HANDLER'' = Some ''index.bar''" by (simp add: n2)
  from t1 e have "updateEnv ?v1 Map.empty ''_HANDLER'' = map_of ?v1 ''_HANDLER''" by blast
  with m1 have 1: "updateEnv ?v1 Map.empty ''_HANDLER'' = Some ''foo.bar''" by simp
  from t2 e have "updateEnv ?v2 Map.empty ''_HANDLER'' = map_of ?v2 ''_HANDLER''" by blast
  with m2 have 2: "updateEnv ?v2 Map.empty ''_HANDLER'' = Some ''index.bar''" by simp
  from 1 2 show ?thesis by blast
qed

section \<open>The completion guard\<close>

lemma complete_completed: "completion (snd pc) \<noteq> Pending \<Longrightarrow> complete r pc = pc"
  by (cases pc) (simp add: complete_def)

lemma complete_pending:
  "completion c = Pending \<Longrightarrow>
   complete r (p, c) =
     (invoke_callback (ctx_callback c) (fst (callback_args r)) (snd (callback_args r))
        (p\<lparr>penv := deleteEnv (teardown c) (penv p)\<rparr>),
      c\<lparr>completion := completion_of r,
        timer := (case timer c of Armed n \<Rightarrow> Cleared | t \<Rightarrow> t),
        final_runs := Suc (final_runs c)\<rparr>)"
  by (cases r) (simp_all add: complete_def Let_def)

lemma apply_call_complete: "apply_call x pc = complete (event_result (Call x)) pc"
  by (cases x) simp_all

lemma ctx_step_pending:
  "completion (snd pc) = Pending \<Longrightarrow> (ev = TimerFires \<longrightarrow> is_armed (timer (snd pc))) \<Longrightarrow>
   ctx_step ev pc = complete (event_result ev) pc"
  by (cases ev; cases pc)
     (auto simp: apply_call_complete timer_fires_def is_armed_def split: timer.splits)

lemma ctx_step_completed: "completion (snd pc) \<noteq> Pending \<Longrightarrow> ctx_step ev pc = pc"
  by (cases ev; cases pc)
     (auto simp: apply_call_complete timer_fires_def complete_completed split: timer.splits)

lemma ctx_run_completed: "completion (snd pc) \<noteq> Pending \<Longrightarrow> ctx_run evs pc = pc"
  by (induction evs) (simp_all add: ctx_step_completed)

lemma completion_of_not_pending: "completion_of r \<noteq> Pending"
  by (cases r) simp_all

lemma completion_complete_pending:
  "completion (snd pc) = Pending \<Longrightarrow> completion (snd (complete r pc)) = completion_of r"
  by (cases pc) (simp add: complete_pending)

lemma final_runs_complete_pending:
  "completion (snd pc) = Pending \<Longrightarrow> final_runs (snd (complete r pc)) = Suc (final_runs (snd pc))"
  by (cases pc) (simp add: complete_pending)

lemma cb_calls_invoke_user:
  "cb_calls (invoke_callback (Some UserCallback) e v p) = cb_calls p @ [(e, v)]"
  by (simp add: invoke_callback_def)

lemma cb_calls_complete_pending:
  "completion (snd pc) = Pending \<Longrightarrow> ctx_callback (snd pc) = Some UserCallback \<Longrightarrow>
   cb_calls (fst (complete r pc)) = cb_calls (fst pc) @ [callback_args r]"
  by (cases pc) (simp add: complete_pending cb_calls_invoke_user)

lemma future_complete_pending:
  "completion (snd pc) = Pending \<Longrightarrow> ctx_callback (snd pc) = Some FutureCallback \<Longrightarrow>
   future (fst pc) = PPending \<Longrightarrow> truthy e \<Longrightarrow>
   future (fst (complete (Failure e) pc)) = PRejected e"
  by (cases pc) (simp add: complete_pending invoke_callback_def callback_args_def rejectP_def resolveP_def)

lemma once_complete: "once (snd pc) \<Longrightarrow> once (snd (complete r pc))"
  by (cases pc; cases "completion (snd pc) = Pending")
     (auto simp: complete_pending complete_completed once_def completion_of_not_pending)

lemma once_complete_fresh:
  "completion (snd pc) = Pending \<Longrightarrow> final_runs (snd pc) = 0 \<Longrightarrow> once (snd (complete r pc))"
  by (cases pc) (simp add: complete_pending once_def completion_of_not_pending)

lemma once_apply_call: "once (snd pc) \<Longrightarrow> once (snd (apply_call x pc))"
  by (simp add: apply_call_complete once_complete)

lemma once_apply_calls: "once (snd pc) \<Longrightarrow> once (snd (apply_calls xs pc))"
  by (induction xs arbitrary: pc) (simp_all add: once_apply_call)

lemma once_ctx_step: "once (snd pc) \<Longrightarrow> once (snd (ctx_step ev pc))"
  by (cases ev; cases pc) (auto simp: once_apply_call timer_fires_def once_complete split: timer.splits)

lemma once_ctx_run: "once (snd pc) \<Longrightarrow> once (snd (ctx_run evs pc))"
  by (induction evs arbitrary: pc) (simp_all add: once_ctx_step)

lemma once_init_timeout:
  "completion (snd pc) = Pending \<Longrightarrow> final_runs (snd pc) = 0 \<Longrightarrow> once (snd (init_timeout pc))"
  by (cases pc) (simp add: init_timeout_def once_def is_armed_def)

lemma ctx_run_append: "ctx_run (xs @ ys) pc = ctx_run ys (ctx_run xs pc)"
  by (induction xs arbitrary: pc) simp_all

lemma once_timer_fires_completed:
  "once (snd pc) \<Longrightarrow> completion (snd (timer_fires pc)) \<noteq> Pending"
  by (cases pc; cases "completion (snd pc) = Pending")
     (auto simp: timer_fires_def once_def is_armed_def complete_pending complete_completed
        completion_of_not_pending split: timer.splits)

lemma once_completed_runs: "once c \<Longrightarrow> completion c \<noteq> Pending \<Longrightarrow> final_runs c = 1"
  by (simp add: once_def)

lemma after_return_once:
  "once (snd pc) \<Longrightarrow> after_return r pc = Inr (pc', w) \<Longrightarrow> once (snd pc')"
  by (auto simp: after_return_def apply_call_complete once_complete split: if_splits then_kind.splits)

lemma after_return_once_err:
  "once (snd pc) \<Longrightarrow> after_return r pc = Inl (e, pc') \<Longrightarrow> once (snd pc')"
  by (auto simp: after_return_def split: if_splits then_kind.splits)

lemma fail_fresh_or_once:
  "(completion (snd pc) = Pending \<and> final_runs (snd pc) = 0) \<or> once (snd pc) \<Longrightarrow>
   once (snd (apply_call (Fail e) pc))"
  by (auto simp: once_complete_fresh once_complete)

lemma try_body_once:
  assumes "completion (snd pc) = Pending" and "final_runs (snd pc) = 0"
  shows "case try_body h opts path pc of
           Inl (e, pc') \<Rightarrow> (completion (snd pc') = Pending \<and> final_runs (snd pc') = 0) \<or> once (snd pc')
         | Inr (pc', w) \<Rightarrow> once (snd pc')"
proof (cases "load_handler h opts path (fst pc)")
  case (Inl e)
  with assms show ?thesis by (simp add: try_body_def)
next
  case (Inr mp)
  obtain m p1 where mp: "mp = (m, p1)" by (cases mp)
  show ?thesis
  proof (cases "resolve_event (event opts)")
    case (Inl e)
    with Inr mp assms show ?thesis by (simp add: try_body_def)
  next
    case ev: (Inr ev)
    let ?pc2 = "init_timeout (p1, snd pc)"
    have o2: "once (snd ?pc2)" using assms by (intro once_init_timeout) simp_all
    show ?thesis
    proof (cases "map_of m (handler_name opts)")
      case None
      with Inr mp ev o2 show ?thesis by (simp add: try_body_def)
    next
      case (Some f)
      let ?pc3 = "apply_calls (sync_calls (f ev)) ?pc2"
      have o3: "once (snd ?pc3)" using o2 by (rule once_apply_calls)
      show ?thesis
      proof (cases "finish (f ev)")
        case (Throws e)
        with Inr mp ev Some o3 show ?thesis by (simp add: try_body_def Let_def)
      next
        case (Returns r)
        with Inr mp ev Some have t: "try_body h opts path pc = after_return r ?pc3"
          by (simp add: try_body_def Let_def)
        show ?thesis
        proof (cases "after_return r ?pc3")
          case (Inl a)
          with t o3 show ?thesis by (cases a) (auto dest: after_return_once_err)
        next
          case (Inr b)
          with t o3 show ?thesis by (cases b) (auto dest: after_return_once)
        qed
      qed
    qed
  qed
qed

lemma run_handler_once:
  assumes "completion (snd pc) = Pending" and "final_runs (snd pc) = 0"
  shows "once (ctx (run_handler h opts path pc))"
proof (cases "try_body h opts path pc")
  case (Inl a)
  obtain e pc' where a: "a = (e, pc')" by (cases a)
  from try_body_once [OF assms, of h opts path] Inl a
  have "(completion (snd pc') = Pending \<and> final_runs (snd pc') = 0) \<or> once (snd pc')" by simp
  then have "once (snd (apply_call (Fail e) pc'))" by (rule fail_fresh_or_once)
  with Inl a show ?thesis by (simp add: run_handler_def Let_def)
next
  case (Inr b)
  obtain pc' w where b: "b = (pc', w)" by (cases b)
  from try_body_once [OF assms, of h opts path] Inr b have "once (snd pc')" by simp
  with Inr b show ?thesis by (simp add: run_handler_def)
qed

lemma prepare_fresh:
  "completion (snd (prepare h opts cc p)) = Pending"
  "final_runs (snd (prepare h opts cc p)) = 0"
  "ctx_callback (snd (prepare h opts cc p)) = callback opts"
  "cb_calls (fst (prepare h opts cc p)) = cb_calls p"
  "future (fst (prepare h opts cc p)) = future p"
  by (simp_all add: prepare_def new_context_def Let_def)

lemma executeSync_once: "executeSync h opts p = Inr iv \<Longrightarrow> once (ctx iv)"
  by (auto simp: executeSync_def prepare_fresh intro!: run_handler_once split: sum.splits)

lemma validate_error:
  "validate h opts p = Inl (e, q) \<Longrightarrow> q = p \<and> (e = client_context_error \<or> e = both_handlers_error)"
  by (auto simp: validate_def client_context_of_def split: sum.splits if_splits jsval.splits option.splits)

text \<open>
  C1. For a pending invocation, the first event that asks for a completion, whichever
  it is (a call of \<^verbatim>\<open>done\<close>, \<^verbatim>\<open>succeed\<close> or \<^verbatim>\<open>fail\<close>, the settlement of the returned
  future, the \<^verbatim>\<open>succeed(null)\<close> after a plain return, the expiry of the armed timer),
  fixes the completion state and the arguments the callback receives; the hook runs
  then, once; every later event leaves the state as it is. For every invocation
  that \<^verbatim>\<open>_executeSync\<close> starts, the hook has run once if the invocation is completed
  and never if it is pending, whatever happens later, and when the timer has expired the
  invocation is completed and the hook has run exactly once.
\<close>

theorem first_completion_wins:
  "(completion (snd pc) = Pending \<and> (ev = TimerFires \<longrightarrow> is_armed (timer (snd pc))) \<longrightarrow>
      ctx_run (ev # evs) pc = complete (event_result ev) pc
      \<and> completion (snd (ctx_run (ev # evs) pc)) = completion_of (event_result ev)
      \<and> final_runs (snd (ctx_run (ev # evs) pc)) = Suc (final_runs (snd pc))
      \<and> (ctx_callback (snd pc) = Some UserCallback \<longrightarrow>
           cb_calls (fst (ctx_run (ev # evs) pc)) = cb_calls (fst pc) @ [callback_args (event_result ev)])
      \<and> ctx_step ev' (ctx_run (ev # evs) pc) = ctx_run (ev # evs) pc)
   \<and> (executeSync h opts p = Inr iv \<longrightarrow>
      once (ctx iv)
      \<and> once (snd (ctx_run evs (proc iv, ctx iv)))
      \<and> completion (snd (ctx_run (evs @ [TimerFires]) (proc iv, ctx iv))) \<noteq> Pending
      \<and> final_runs (snd (ctx_run (evs @ [TimerFires]) (proc iv, ctx iv))) = 1)"
proof (intro conjI impI)
  assume a: "completion (snd pc) = Pending \<and> (ev = TimerFires \<longrightarrow> is_armed (timer (snd pc)))"
  then have s: "ctx_step ev pc = complete (event_result ev) pc"
    by (simp add: ctx_step_pending)
  have c: "completion (snd (complete (event_result ev) pc)) \<noteq> Pending"
    using a by (simp add: completion_complete_pending completion_of_not_pending)
  show r: "ctx_run (ev # evs) pc = complete (event_result ev) pc"
    using s c by (simp add: ctx_run_completed)
  show "completion (snd (ctx_run (ev # evs) pc)) = completion_of (event_result ev)"
    unfolding r using a by (simp add: completion_complete_pending)
  show "final_runs (snd (ctx_run (ev # evs) pc)) = Suc (final_runs (snd pc))"
    unfolding r using a by (simp add: final_runs_complete_pending)
  show "ctx_step ev' (ctx_run (ev # evs) pc) = ctx_run (ev # evs) pc"
    unfolding r using c by (rule ctx_step_completed)
  assume "ctx_callback (snd pc) = Some UserCallback"
  then show "cb_calls (fst (ctx_run (ev # evs) pc)) = cb_calls (fst pc) @ [callback_args (event_result ev)]"
    unfolding r using a by (simp add: cb_calls_complete_pending)
next
  assume e: "executeSync h opts p = Inr iv"
  then show o: "once (ctx iv)" by (rule executeSync_once)
  then have o': "once (snd (ctx_run evs (proc iv, ctx iv)))" for evs
    by (intro once_ctx_run) simp
  then show "once (snd (ctx_run evs (proc iv, ctx iv)))" .
  have f: "ctx_run (evs @ [TimerFires]) (proc iv, ctx iv) = timer_fires (ctx_run evs (proc iv, ctx iv))"
    by (simp add: ctx_run_append)
  show n: "completion (snd (ctx_run (evs @ [TimerFires]) (proc iv, ctx iv))) \<noteq> Pending"
    unfolding f using o' by (rule once_timer_fires_completed)
  from o' [of "evs @ [TimerFires]"] n
  show "final_runs (snd (ctx_run (evs @ [TimerFires]) (proc iv, ctx iv))) = 1"
    by (rule once_completed_runs)
qed

lemma executeSync_lambdaFunc:
  "clientContext opts = JUndefined \<Longrightarrow> lambdaPath opts = None \<Longrightarrow>
   executeSync h opts p = Inr (run_handler h opts None (prepare h opts JNull p))"
  by (simp add: executeSync_def validate_def client_context_of_def absolute_path_def truthy_str_def)

lemma prepare_trial:
  "callbackWaitsForEmptyEventLoop opts = None \<Longrightarrow>
   prepare trial_host opts cc p = (p\<lparr>penv := stage_env trial_host opts
      (or_else (profileName opts) (or_else (penv p ''AWS_PROFILE'') (penv p ''AWS_DEFAULT_PROFILE''))) (penv p)\<rparr>,
      new_context opts False cc)"
  by (simp add: prepare_def waits_flag_def Let_def)

lemma trial_call_state:
  assumes "callbackWaitsForEmptyEventLoop opts = None"
  shows "completion (snd (init_timeout (prepare trial_host opts cc p))) = Pending"
    and "is_armed (timer (snd (init_timeout (prepare trial_host opts cc p))))"
    and "ctx_callback (snd (init_timeout (prepare trial_host opts cc p))) = callback opts"
    and "cb_calls (fst (init_timeout (prepare trial_host opts cc p))) = cb_calls p"
  by (simp_all add: prepare_trial [OF assms] init_timeout_def new_context_def is_armed_def)

text \<open>
  On the POSIX host: after a \<^verbatim>\<open>succeed\<close> a \<^verbatim>\<open>fail\<close> changes nothing, and the
  invocation of a handler that returns 0 is completed, once, when a late \<^verbatim>\<open>fail\<close> and
  the timer have come.
\<close>

theorem first_completion_wins_witness:
  "completion (snd (ctx_run [Call (Succeed (JStr ''ok'')), Call (Fail boom)]
       (init_timeout (prepare trial_host returns_zero_options JNull fresh_process))))
     = Completed_success (JStr ''ok'')
   \<and> cb_calls (fst (ctx_run [Call (Succeed (JStr ''ok'')), Call (Fail boom)]
       (init_timeout (prepare trial_host returns_zero_options JNull fresh_process))))
     = [(JNull, JStr ''ok'')]
   \<and> final_runs (snd (ctx_run [Call (Succeed (JStr ''ok'')), Call (Fail boom)]
       (init_timeout (prepare trial_host returns_zero_options JNull fresh_process)))) = 1
   \<and> executeSync trial_host returns_zero_options fresh_process
       = Inr (run_handler trial_host returns_zero_options None
                (prepare trial_host returns_zero_options JNull fresh_process))
   \<and> final_runs (snd (ctx_run ([Call (Fail boom)] @ [TimerFires])
       (proc (run_handler trial_host returns_zero_options None
                (prepare trial_host returns_zero_options JNull fresh_process)),
        ctx (run_handler trial_host returns_zero_options None
                (prepare trial_host returns_zero_options JNull fresh_process))))) = 1"
proof -
  let ?pc = "init_timeout (prepare trial_host returns_zero_options JNull fresh_process)"
  let ?iv = "run_handler trial_host returns_zero_options None
                (prepare trial_host returns_zero_options JNull fresh_process)"
  let ?ev = "Call (Succeed (JStr ''ok''))"
  let ?evs = "[Call (Fail boom)]"
  have w: "callbackWaitsForEmptyEventLoop returns_zero_options = None"
    and c: "callback returns_zero_options = Some UserCallback"
    and o: "clientContext returns_zero_options = JUndefined" "lambdaPath returns_zero_options = None"
    by (simp_all add: returns_zero_options_def no_options_def)
  have a: "completion (snd ?pc) = Pending \<and> (?ev = TimerFires \<longrightarrow> is_armed (timer (snd ?pc)))"
    by (simp add: trial_call_state [OF w])
  have u: "ctx_callback (snd ?pc) = Some UserCallback"
    by (simp add: trial_call_state [OF w] c)
  have u2: "cb_calls (fst ?pc) = []"
    by (simp add: trial_call_state [OF w] fresh_process_def)
  have u3: "final_runs (snd ?pc) = 0"
    by (simp add: init_timeout_def prepare_trial [OF w] new_context_def)
  have x: "executeSync trial_host returns_zero_options fresh_process = Inr ?iv"
    by (rule executeSync_lambdaFunc [OF o])
  note t = first_completion_wins [where pc = ?pc and ev = ?ev and evs = ?evs and h = trial_host
      and opts = returns_zero_options and p = fresh_process and iv = ?iv]
  from t a have "completion (snd (ctx_run (?ev # ?evs) ?pc)) = completion_of (event_result ?ev)"
    by blast
  then have 1: "completion (snd (ctx_run (?ev # ?evs) ?pc)) = Completed_success (JStr ''ok'')"
    by simp
  from t a u have "cb_calls (fst (ctx_run (?ev # ?evs) ?pc))
      = cb_calls (fst ?pc) @ [callback_args (event_result ?ev)]"
    by blast
  then have 2: "cb_calls (fst (ctx_run (?ev # ?evs) ?pc)) = [(JNull, JStr ''ok'')]"
    by (simp add: u2 callback_args_def)
  from t a have "final_runs (snd (ctx_run (?ev # ?evs) ?pc)) = Suc (final_runs (snd ?pc))"
    by blast
  then have 3: "final_runs (snd (ctx_run (?ev # ?evs) ?pc)) = 1"
    by (simp add: u3)
  from t x have 4: "final_runs (snd (ctx_run (?evs @ [TimerFires]) (proc ?iv, ctx ?iv))) = 1"
    by blast
  from 1 2 3 x 4 show ?thesis by blast
qed

section \<open>The handler call\<close>

lemma run_handler_returns:
  assumes "load_handler h opts path (fst pc) = Inr (m, p1)"
    and "resolve_event (event opts) = Inr ev"
    and "map_of m (handler_name opts) = Some f"
    and "finish (f ev) = Returns r"
  shows "try_body h opts path pc
           = after_return r (apply_calls (sync_calls (f ev)) (init_timeout (p1, snd pc)))"
  using assms by (simp add: try_body_def Let_def)

lemma run_handler_throws:
  assumes "load_handler h opts path (fst pc) = Inr (m, p1)"
    and "resolve_event (event opts) = Inr ev"
    and "map_of m (handler_name opts) = Some f"
    and "finish (f ev) = Throws err"
  shows "try_body h opts path pc
           = Inl (err, apply_calls (sync_calls (f ev)) (init_timeout (p1, snd pc)))"
  using assms by (simp add: try_body_def Let_def)

lemma completion_init_timeout: "completion (snd (init_timeout pc)) = completion (snd pc)"
  by (cases pc) (simp add: init_timeout_def)

text \<open>
  C2, as the code has it. When the handler returns a truthy value whose \<^verbatim>\<open>then\<close> is
  falsy, the scheduler calls \<^verbatim>\<open>succeed(null)\<close>: the invocation, if it is still pending,
  is completed as a success with the payload \<open>null\<close>. When the handler returns a falsy
  value (\<open>undefined\<close>, \<open>null\<close>, \<open>false\<close>, 0, \<open>NaN\<close>, the empty string), the
  scheduler calls nothing: an invocation that the handler did not complete stays
  pending, with its timer armed.
\<close>

theorem plain_return_succeeds:
  assumes "load_handler h opts path (fst pc) = Inr (m, p1)"
    and "resolve_event (event opts) = Inr ev"
    and "map_of m (handler_name opts) = Some f"
    and "finish (f ev) = Returns r"
    and "at_return = apply_calls (sync_calls (f ev)) (init_timeout (p1, snd pc))"
  shows "(truthy r \<and> then_of r = NoThen \<longrightarrow>
            run_handler h opts path pc
              = \<lparr>proc = fst (complete (Success JNull) at_return),
                 ctx = snd (complete (Success JNull) at_return), wired = None\<rparr>
            \<and> (completion (snd at_return) = Pending \<longrightarrow>
                 completion (ctx (run_handler h opts path pc)) = Completed_success JNull))
       \<and> (\<not> truthy r \<longrightarrow>
            run_handler h opts path pc = \<lparr>proc = fst at_return, ctx = snd at_return, wired = None\<rparr>
            \<and> (sync_calls (f ev) = [] \<and> completion (snd pc) = Pending \<longrightarrow>
                 completion (ctx (run_handler h opts path pc)) = Pending))"
proof -
  have t: "try_body h opts path pc = after_return r at_return"
    using assms by (simp add: run_handler_returns)
  show ?thesis
  proof (intro conjI impI)
    assume a: "truthy r \<and> then_of r = NoThen"
    then show rh: "run_handler h opts path pc
              = \<lparr>proc = fst (complete (Success JNull) at_return),
                 ctx = snd (complete (Success JNull) at_return), wired = None\<rparr>"
      by (simp add: run_handler_def t after_return_def)
    assume "completion (snd at_return) = Pending"
    then show "completion (ctx (run_handler h opts path pc)) = Completed_success JNull"
      unfolding rh by (simp add: completion_complete_pending)
  next
    assume a: "\<not> truthy r"
    then show rh: "run_handler h opts path pc = \<lparr>proc = fst at_return, ctx = snd at_return, wired = None\<rparr>"
      by (simp add: run_handler_def t after_return_def)
    assume "sync_calls (f ev) = [] \<and> completion (snd pc) = Pending"
    then show "completion (ctx (run_handler h opts path pc)) = Pending"
      unfolding rh using assms(5) by (simp add: completion_init_timeout)
  qed
qed

text \<open>
  On the POSIX host: a handler that returns 7 is completed with \<open>null\<close>, one that
  returns 0 stays pending.
\<close>

theorem plain_return_succeeds_witness:
  "truthy (JNum 7) \<and> then_of (JNum 7) = NoThen
   \<and> completion (ctx (run_handler trial_host returns_seven_options None
         (prepare trial_host returns_seven_options JNull fresh_process))) = Completed_success JNull
   \<and> \<not> truthy (JNum 0)
   \<and> completion (ctx (run_handler trial_host returns_zero_options None
         (prepare trial_host returns_zero_options JNull fresh_process))) = Pending"
proof -
  let ?pc7 = "prepare trial_host returns_seven_options JNull fresh_process"
  let ?pc0 = "prepare trial_host returns_zero_options JNull fresh_process"
  have w7: "callbackWaitsForEmptyEventLoop returns_seven_options = None"
    and w0: "callbackWaitsForEmptyEventLoop returns_zero_options = None"
    by (simp_all add: returns_seven_options_def returns_zero_options_def no_options_def)
  have l7: "load_handler trial_host returns_seven_options None (fst ?pc7)
              = Inr ([(''handler'', seven_handler)], fst ?pc7)"
    and l0: "load_handler trial_host returns_zero_options None (fst ?pc0)
              = Inr ([(''handler'', zero_handler)], fst ?pc0)"
    by (simp_all add: load_handler_def returns_seven_options_def returns_zero_options_def no_options_def)
  have e7: "resolve_event (event returns_seven_options) = Inr JUndefined"
    and e0: "resolve_event (event returns_zero_options) = Inr JUndefined"
    by (simp_all add: returns_seven_options_def returns_zero_options_def no_options_def)
  have m7: "map_of [(''handler'', seven_handler)] (handler_name returns_seven_options) = Some seven_handler"
    and m0: "map_of [(''handler'', zero_handler)] (handler_name returns_zero_options) = Some zero_handler"
    by (simp_all add: handler_name_def or_default_def returns_seven_options_def returns_zero_options_def
          no_options_def)
  have f7: "finish (seven_handler JUndefined) = Returns (JNum 7)"
    and s7: "sync_calls (seven_handler JUndefined) = []"
    and f0: "finish (zero_handler JUndefined) = Returns (JNum 0)"
    and s0: "sync_calls (zero_handler JUndefined) = []"
    by (simp_all add: seven_handler_def zero_handler_def)
  have p7: "completion (snd (apply_calls (sync_calls (seven_handler JUndefined))
              (init_timeout (fst ?pc7, snd ?pc7)))) = Pending"
    by (simp add: s7 trial_call_state [OF w7])
  have p0: "completion (snd ?pc0) = Pending" by (simp add: prepare_fresh)
  have t7: "truthy (JNum 7) \<and> then_of (JNum 7) = NoThen" by simp
  have t0: "\<not> truthy (JNum 0)" by simp
  from plain_return_succeeds [OF l7 e7 m7 f7 refl] p7 t7
  have 1: "completion (ctx (run_handler trial_host returns_seven_options None ?pc7)) = Completed_success JNull"
    by blast
  from plain_return_succeeds [OF l0 e0 m0 f0 refl] s0 p0 t0
  have 2: "completion (ctx (run_handler trial_host returns_zero_options None ?pc0)) = Pending"
    by blast
  from 1 2 t7 t0 show ?thesis by blast
qed

text \<open>
  C2, as it is written, fails for the falsy values: when the handler returns 0 and
  calls nothing, \<^verbatim>\<open>_executeSync\<close> returns with the invocation pending and the callback
  not called.
\<close>

theorem zero_return_stays_pending:
  "observed (executeSync trial_host returns_zero_options fresh_process) = Some (Pending, [], PPending)"
proof -
  have o: "clientContext returns_zero_options = JUndefined" "lambdaPath returns_zero_options = None"
    "callbackWaitsForEmptyEventLoop returns_zero_options = None"
    by (simp_all add: returns_zero_options_def no_options_def)
  show ?thesis
    unfolding executeSync_lambdaFunc [OF o(1,2)] prepare_trial [OF o(3)]
    by (simp add: observed_def run_handler_def try_body_def load_handler_def returns_zero_options_def
          no_options_def handler_name_def or_default_def init_timeout_def new_context_def
          zero_handler_def after_return_def fresh_process_def Let_def)
qed

text \<open>
  C8, as the code has it. An exception of the handler body is caught and passed to
  \<^verbatim>\<open>fail\<close>, and \<^verbatim>\<open>_executeSync\<close> returns. If the invocation is still pending then,
  it is completed as a failure with that error, which the callback receives as its
  first argument (and which rejects the future when it is truthy); if the handler had
  completed the invocation before it raised, \<^verbatim>\<open>fail\<close> changes nothing. The only
  exceptions that leave \<^verbatim>\<open>_executeSync\<close> are the two of lines 134 and 142, raised
  before anything is written.
\<close>

theorem thrown_goes_to_fail:
  assumes "load_handler h opts path (fst pc) = Inr (m, p1)"
    and "resolve_event (event opts) = Inr ev"
    and "map_of m (handler_name opts) = Some f"
    and "finish (f ev) = Throws err"
    and "at_throw = apply_calls (sync_calls (f ev)) (init_timeout (p1, snd pc))"
  shows "run_handler h opts path pc
           = \<lparr>proc = fst (apply_call (Fail err) at_throw), ctx = snd (apply_call (Fail err) at_throw),
              wired = None\<rparr>
       \<and> (completion (snd at_throw) = Pending \<longrightarrow>
            completion (ctx (run_handler h opts path pc)) = Completed_failure err
            \<and> (ctx_callback (snd at_throw) = Some UserCallback \<longrightarrow>
                 cb_calls (proc (run_handler h opts path pc)) = cb_calls (fst at_throw) @ [(err, JUndefined)])
            \<and> (ctx_callback (snd at_throw) = Some FutureCallback \<and> future (fst at_throw) = PPending
                 \<and> truthy err \<longrightarrow>
                 future (proc (run_handler h opts path pc)) = PRejected err))
       \<and> (completion (snd at_throw) \<noteq> Pending \<longrightarrow>
            proc (run_handler h opts path pc) = fst at_throw
            \<and> ctx (run_handler h opts path pc) = snd at_throw)
       \<and> (executeSync h opts q = Inl (e, q') \<longrightarrow>
            q' = q \<and> (e = client_context_error \<or> e = both_handlers_error))"
proof -
  have t: "try_body h opts path pc = Inl (err, at_throw)"
    using assms by (simp add: run_handler_throws)
  have rh: "run_handler h opts path pc
           = \<lparr>proc = fst (complete (Failure err) at_throw), ctx = snd (complete (Failure err) at_throw),
              wired = None\<rparr>"
    by (simp add: run_handler_def t Let_def)
  have v: "executeSync h opts q = Inl (e, q') \<longrightarrow>
            q' = q \<and> (e = client_context_error \<or> e = both_handlers_error)"
    by (auto simp: executeSync_def split: sum.splits dest: validate_error)
  show ?thesis
  proof (intro conjI impI)
    show "run_handler h opts path pc
           = \<lparr>proc = fst (apply_call (Fail err) at_throw), ctx = snd (apply_call (Fail err) at_throw),
              wired = None\<rparr>"
      by (simp add: rh)
  next
    assume "completion (snd at_throw) = Pending"
    then show "completion (ctx (run_handler h opts path pc)) = Completed_failure err"
      unfolding rh by (simp add: completion_complete_pending)
  next
    assume "completion (snd at_throw) = Pending" "ctx_callback (snd at_throw) = Some UserCallback"
    then show "cb_calls (proc (run_handler h opts path pc)) = cb_calls (fst at_throw) @ [(err, JUndefined)]"
      unfolding rh by (simp add: cb_calls_complete_pending callback_args_def)
  next
    assume "completion (snd at_throw) = Pending"
      "ctx_callback (snd at_throw) = Some FutureCallback \<and> future (fst at_throw) = PPending \<and> truthy err"
    then show "future (proc (run_handler h opts path pc)) = PRejected err"
      unfolding rh by (simp add: future_complete_pending)
  next
    assume "completion (snd at_throw) \<noteq> Pending"
    then show "proc (run_handler h opts path pc) = fst at_throw"
      and "ctx (run_handler h opts path pc) = snd at_throw"
      unfolding rh by (simp_all add: complete_completed)
  next
    assume "executeSync h opts q = Inl (e, q')"
    with v show "q' = q" and "e = client_context_error \<or> e = both_handlers_error" by simp_all
  qed
qed

text \<open>
  On the POSIX host: the error of a handler that only raises reaches the callback.
\<close>

theorem thrown_goes_to_fail_witness:
  "completion (ctx (run_handler trial_host throws_boom_options None
       (prepare trial_host throws_boom_options JNull fresh_process))) = Completed_failure boom
   \<and> cb_calls (proc (run_handler trial_host throws_boom_options None
       (prepare trial_host throws_boom_options JNull fresh_process))) = [(boom, JUndefined)]"
proof -
  let ?pc = "prepare trial_host throws_boom_options JNull fresh_process"
  have w: "callbackWaitsForEmptyEventLoop throws_boom_options = None"
    and c: "callback throws_boom_options = Some UserCallback"
    by (simp_all add: throws_boom_options_def no_options_def)
  have l: "load_handler trial_host throws_boom_options None (fst ?pc)
              = Inr ([(''handler'', boom_handler)], fst ?pc)"
    by (simp add: load_handler_def throws_boom_options_def no_options_def)
  have e: "resolve_event (event throws_boom_options) = Inr JUndefined"
    by (simp add: throws_boom_options_def no_options_def)
  have m: "map_of [(''handler'', boom_handler)] (handler_name throws_boom_options) = Some boom_handler"
    by (simp add: handler_name_def or_default_def throws_boom_options_def no_options_def)
  have f: "finish (boom_handler JUndefined) = Throws boom"
    and s: "sync_calls (boom_handler JUndefined) = []"
    by (simp_all add: boom_handler_def)
  let ?at = "apply_calls (sync_calls (boom_handler JUndefined)) (init_timeout (fst ?pc, snd ?pc))"
  have p: "completion (snd ?at) = Pending" "ctx_callback (snd ?at) = Some UserCallback"
    "cb_calls (fst ?at) = []"
    by (simp_all add: s trial_call_state [OF w] c fresh_process_def)
  note t = thrown_goes_to_fail [OF l e m f refl, of fresh_process boom fresh_process]
  from t p(1) have 1: "completion (ctx (run_handler trial_host throws_boom_options None ?pc)) = Completed_failure boom"
    by blast
  from t p(1,2) have "cb_calls (proc (run_handler trial_host throws_boom_options None ?pc))
      = cb_calls (fst ?at) @ [(boom, JUndefined)]"
    by blast
  with p(3) have 2: "cb_calls (proc (run_handler trial_host throws_boom_options None ?pc)) = [(boom, JUndefined)]"
    by simp
  from 1 2 show ?thesis by blast
qed

text \<open>
  C8, as it is written, fails when the handler has completed the invocation before it
  raises: after \<^verbatim>\<open>done(null, "ok")\<close> the error is passed to \<^verbatim>\<open>fail\<close> and dropped; the
  callback is called once, with the success.
\<close>

theorem error_after_done_is_dropped:
  "observed (executeSync trial_host done_then_throws_options fresh_process)
     = Some (Completed_success (JStr ''ok''), [(JNull, JStr ''ok'')], PPending)"
proof -
  have o: "clientContext done_then_throws_options = JUndefined" "lambdaPath done_then_throws_options = None"
    "callbackWaitsForEmptyEventLoop done_then_throws_options = None"
    by (simp_all add: done_then_throws_options_def no_options_def)
  show ?thesis
    unfolding executeSync_lambdaFunc [OF o(1,2)] prepare_trial [OF o(3)]
    by (simp add: observed_def run_handler_def try_body_def load_handler_def done_then_throws_options_def
          no_options_def handler_name_def or_default_def init_timeout_def new_context_def
          done_boom_handler_def fresh_process_def Let_def complete_def invoke_callback_def
          callback_args_def teardown_of_def timeout_of_def)
qed

section \<open>The entry point\<close>

lemma client_context_of_cases:
  "client_context_of h cc =
     (if bad_client_context h cc then Inl client_context_error
      else Inr (if truthy cc then (case cc of JStr s \<Rightarrow> the (json_parse h s) | _ \<Rightarrow> cc) else JNull))"
  by (cases cc) (auto simp: client_context_of_def bad_client_context_def split: option.splits)

text \<open>
  C3, as the code has it. When both \<^verbatim>\<open>lambdaFunc\<close> and a non-empty \<^verbatim>\<open>lambdaPath\<close>
  are given, \<^verbatim>\<open>execute\<close> fails before anything is written or loaded: with the error of
  line 142, unless the client context is a non-empty string that does not parse, in which
  case the error of line 134 comes first. With a callback the error is raised and the
  process is as it was; without one, the future that \<^verbatim>\<open>execute\<close> returns is rejected
  with it, nothing else of the process has changed and no invocation was started.
\<close>

theorem both_handlers_rejected:
  assumes "a < length hp" and "lambdaFunc (hp ! a) \<noteq> None" and "truthy_str (lambdaPath (hp ! a))"
    and "err = (if bad_client_context h (clientContext (hp ! a)) then client_context_error
                else both_handlers_error)"
  shows "(callback (hp ! a) \<noteq> None \<longrightarrow> execute h hp a p = Inl (err, p))
       \<and> (callback (hp ! a) = None \<longrightarrow>
            (\<exists>x. execute h hp a p = Inr x \<and> returned x = ReturnsFuture \<and> started x = None
                \<and> proc_after x = p\<lparr>future := PRejected err\<rparr>))"
  using assms
  by (auto simp: execute_def executeSync_def validate_def client_context_of_cases Let_def rejectP_def
        nth_append)

text \<open>
  On the POSIX host, with a callback and no client context.
\<close>

theorem both_handlers_rejected_witness:
  "0 < length [both_options] \<and> lambdaFunc ([both_options] ! 0) \<noteq> None
   \<and> truthy_str (lambdaPath ([both_options] ! 0))
   \<and> execute trial_host [both_options] 0 fresh_process = Inl (both_handlers_error, fresh_process)"
proof -
  have a: "0 < length [both_options]" by simp
  have f: "lambdaFunc ([both_options] ! 0) \<noteq> None"
    and t: "truthy_str (lambdaPath ([both_options] ! 0))"
    and c: "callback ([both_options] ! 0) \<noteq> None"
    and b: "\<not> bad_client_context trial_host (clientContext ([both_options] ! 0))"
    by (simp_all add: both_options_def no_options_def truthy_str_def bad_client_context_def)
  from both_handlers_rejected [OF a f t refl, of trial_host fresh_process] c b
  have "execute trial_host [both_options] 0 fresh_process = Inl (both_handlers_error, fresh_process)"
    by simp
  with a f t show ?thesis by blast
qed

text \<open>
  C3, as it is written, fails when the client context does not parse: the error that
  \<^verbatim>\<open>execute\<close> raises is the one about the client context, not the one about the two
  handlers.
\<close>

theorem parse_error_comes_first:
  "lambdaFunc both_bad_context_options \<noteq> None \<and> lambdaPath both_bad_context_options = Some ''/a/b/foo.js''
   \<and> execute trial_host [both_bad_context_options] 0 fresh_process = Inl (client_context_error, fresh_process)
   \<and> client_context_error \<noteq> both_handlers_error"
  by (simp add: execute_def executeSync_def validate_def client_context_of_def
        both_bad_context_options_def both_options_def no_options_def
        trial_host_def trial_parse_def client_context_error_def both_handlers_error_def)

text \<open>
  C7. Called with options that have no callback, \<^verbatim>\<open>execute\<close> returns a future; the
  heap is the old one with one new object after it, which is the options object with the
  callback of the future stored in it; the object of the caller is what it was.
\<close>

theorem future_style_keeps_options:
  assumes "a < length hp" and "callback (hp ! a) = None"
  shows "\<exists>x. execute h hp a p = Inr x \<and> returned x = ReturnsFuture
           \<and> length (heap_after x) = Suc (length hp)
           \<and> take (length hp) (heap_after x) = hp
           \<and> heap_after x ! a = hp ! a
           \<and> heap_after x ! length hp = (hp ! a)\<lparr>callback := Some FutureCallback\<rparr>"
  using assms
  by (auto simp: execute_def Let_def nth_append split: sum.splits prod.splits)

text \<open>
  On the POSIX host, for a heap that holds one options object.
\<close>

theorem future_style_keeps_options_witness:
  "0 < length [foo_bar_options] \<and> callback ([foo_bar_options] ! 0) = None
   \<and> (\<exists>x. execute trial_host [foo_bar_options] 0 fresh_process = Inr x \<and> returned x = ReturnsFuture
           \<and> heap_after x = [foo_bar_options, foo_bar_options\<lparr>callback := Some FutureCallback\<rparr>])"
proof -
  have a: "0 < length [foo_bar_options]" by simp
  have c: "callback ([foo_bar_options] ! 0) = None"
    by (simp add: foo_bar_options_def no_options_def)
  from future_style_keeps_options [OF a c, of trial_host fresh_process]
  obtain x where x: "execute trial_host [foo_bar_options] 0 fresh_process = Inr x"
    "returned x = ReturnsFuture" "length (heap_after x) = Suc (length [foo_bar_options])"
    "take (length [foo_bar_options]) (heap_after x) = [foo_bar_options]"
    "heap_after x ! length [foo_bar_options] = ([foo_bar_options] ! 0)\<lparr>callback := Some FutureCallback\<rparr>"
    by blast
  from x(3) obtain u v where uv: "heap_after x = [u, v]"
    by (cases "heap_after x"; simp) (metis length_0_conv length_Suc_conv Suc_inject)
  with x(4,5) have "heap_after x = [foo_bar_options, foo_bar_options\<lparr>callback := Some FutureCallback\<rparr>]"
    by simp
  with x(1,2) a c show ?thesis by blast
qed

section \<open>The HTTP front end\<close>

text \<open>
  C6. A request whose content type is not exactly \<open>application/json\<close> is answered
  with status 500 and the object whose \<open>error\<close> names the header that was expected;
  nothing is raised, and the server goes on with the requests that follow.
\<close>

theorem non_json_request_rejected:
  assumes "content_type req \<noteq> Some ''application/json''"
    and "refusal = Respond 500 (JObj [(''error'', JStr ''Invalid header Content-Type (Expected application/json)'')])"
  shows "handle_request h opts req = Inr [refusal]
       \<and> serve h opts (req # reqs) = Served [refusal] # serve h opts reqs
       \<and> watch h opts (req # reqs) = Served [refusal] # watch h opts reqs"
  using assms by (simp add: handle_request_def handle_error_def watch_def)

text \<open>
  On the POSIX host: two such requests in a row get one answer each.
\<close>

theorem non_json_request_rejected_witness:
  "content_type plain_request \<noteq> Some ''application/json''
   \<and> watch trial_host no_options [plain_request, plain_request]
       = [Served [Respond 500 (JObj [(''error'', JStr ''Invalid header Content-Type (Expected application/json)'')])],
          Served [Respond 500 (JObj [(''error'', JStr ''Invalid header Content-Type (Expected application/json)'')])]]"
proof -
  have c: "content_type plain_request \<noteq> Some ''application/json''"
    by (simp add: plain_request_def)
  have e: "watch trial_host no_options [] = []" by (simp add: watch_def)
  from non_json_request_rejected [OF c refl, of trial_host no_options "[plain_request]"]
       non_json_request_rejected [OF c refl, of trial_host no_options "[]"] c e
  show ?thesis by simp
qed

lemma get_prop_raises:
  "(\<exists>e. get_prop payload k = Inl e) \<longleftrightarrow> (payload = JNull \<or> payload = JUndefined)"
  by (cases payload) simp_all

text \<open>
  C9, as the code has it. When the body parses to a value other than \<open>null\<close>, reading
  its \<open>event\<close> gives a value; when that value is falsy, \<^verbatim>\<open>_getRequestPayload\<close> calls
  its continuation twice: with the error "Invalid body", and then with \<open>null\<close> and the
  falsy event itself (which is \<open>undefined\<close> when the property is absent). The server
  answers 500 and then starts an invocation with that event. When the body parses to
  \<open>null\<close>, reading \<open>event\<close> at line 94 raises a \<open>TypeError\<close> before the continuation
  is called; nothing catches it in the listener of the \<open>end\<close> event, no answer is
  sent and the server serves no further request.
\<close>

theorem falsy_event_calls_twice:
  assumes "json_parse h b = Some payload"
    and "req = \<lparr>content_type = Some ''application/json'', body = b\<rparr>"
  shows "(payload = JNull \<or> payload = JUndefined \<longrightarrow>
            (\<exists>e. get_prop payload ''event'' = Inl e \<and> getRequestPayload h b = Inl e
                 \<and> handle_request h opts req = Inl e
                 \<and> serve h opts (req # reqs) = [Crashed e]))
       \<and> (payload = JNull \<longrightarrow>
            getRequestPayload h b = Inl (JError ''TypeError'' ''Cannot read properties of null''))
       \<and> (payload \<noteq> JNull \<and> payload \<noteq> JUndefined \<longrightarrow> (\<exists>ev. get_prop payload ''event'' = Inr ev))
       \<and> (get_prop payload ''event'' = Inr ev \<and> \<not> truthy ev \<longrightarrow>
            getRequestPayload h b = Inr [(invalid_body, JUndefined), (JNull, ev)]
            \<and> handle_request h opts req
                 = Inr [Respond 500 (JObj [(''error'', invalid_body)]),
                        Invoke (opts\<lparr>event := EventProducer (Returns ev)\<rparr>)])"
proof (intro conjI impI)
  assume "payload = JNull \<or> payload = JUndefined"
  then obtain e where e: "get_prop payload ''event'' = Inl e"
    using get_prop_raises [of payload "''event''"] by blast
  with assms have "getRequestPayload h b = Inl e" "handle_request h opts req = Inl e"
    "serve h opts (req # reqs) = [Crashed e]"
    by (simp_all add: getRequestPayload_def handle_request_def)
  with e show "\<exists>e. get_prop payload ''event'' = Inl e \<and> getRequestPayload h b = Inl e
                 \<and> handle_request h opts req = Inl e
                 \<and> serve h opts (req # reqs) = [Crashed e]"
    by blast
next
  assume "payload = JNull"
  with assms show "getRequestPayload h b = Inl (JError ''TypeError'' ''Cannot read properties of null'')"
    by (simp add: getRequestPayload_def)
next
  assume "payload \<noteq> JNull \<and> payload \<noteq> JUndefined"
  then show "\<exists>ev. get_prop payload ''event'' = Inr ev"
    by (cases payload) simp_all
next
  assume a: "get_prop payload ''event'' = Inr ev \<and> \<not> truthy ev"
  with assms show "getRequestPayload h b = Inr [(invalid_body, JUndefined), (JNull, ev)]"
    by (simp add: getRequestPayload_def)
  from a assms show "handle_request h opts req
                 = Inr [Respond 500 (JObj [(''error'', invalid_body)]),
                        Invoke (opts\<lparr>event := EventProducer (Returns ev)\<rparr>)]"
    by (simp add: getRequestPayload_def handle_request_def on_payload_def handle_error_def
          invalid_body_def)
qed

text \<open>
  On the POSIX host: the body \<open>{}\<close>, where the event is \<open>undefined\<close>, and the body
  \<open>null\<close>, after which a second request is not served.
\<close>

theorem falsy_event_calls_twice_witness:
  "json_parse trial_host ''{}'' = Some (JObj []) \<and> get_prop (JObj []) ''event'' = Inr JUndefined
   \<and> \<not> truthy JUndefined
   \<and> getRequestPayload trial_host ''{}'' = Inr [(invalid_body, JUndefined), (JNull, JUndefined)]
   \<and> json_parse trial_host ''null'' = Some JNull
   \<and> getRequestPayload trial_host ''null'' = Inl (JError ''TypeError'' ''Cannot read properties of null'')
   \<and> serve trial_host no_options [null_request, plain_request]
        = [Crashed (JError ''TypeError'' ''Cannot read properties of null'')]"
proof -
  have a: "json_parse trial_host ''{}'' = Some (JObj [])" by (simp add: trial_host_def trial_parse_def)
  have b: "get_prop (JObj []) ''event'' = Inr JUndefined \<and> \<not> truthy JUndefined" by simp
  have n: "json_parse trial_host ''null'' = Some JNull" by (simp add: trial_host_def trial_parse_def)
  have r: "null_request = \<lparr>content_type = Some ''application/json'', body = ''null''\<rparr>"
    by (simp add: null_request_def)
  note t1 = falsy_event_calls_twice [OF a refl, where ev = JUndefined]
  note t2 = falsy_event_calls_twice [OF n r, where opts = no_options and reqs = "[plain_request]"]
  from t1 b have 1: "getRequestPayload trial_host ''{}'' = Inr [(invalid_body, JUndefined), (JNull, JUndefined)]"
    by blast
  from t2 have 2: "getRequestPayload trial_host ''null'' = Inl (JError ''TypeError'' ''Cannot read properties of null'')"
    by blast
  from t2 obtain e where e: "getRequestPayload trial_host ''null'' = Inl e"
    "serve trial_host no_options (null_request # [plain_request]) = [Crashed e]"
    by blast
  from e(1) 2 have "e = JError ''TypeError'' ''Cannot read properties of null''" by simp
  with e(2) have 3: "serve trial_host no_options [null_request, plain_request]
        = [Crashed (JError ''TypeError'' ''Cannot read properties of null'')]"
    by simp
  from a b n 1 2 3 show ?thesis by blast
qed

text \<open>
  C9, as it is written, fails for an event that is present and falsy: for the body
  \<open>{"event":0}\<close> the second call passes 0, not \<open>undefined\<close>, and the invocation is
  started with the event 0.
\<close>

theorem falsy_event_passed_on:
  "json_parse trial_host zero_event_body = Some (JObj [(''event'', JNum 0)])
   \<and> \<not> truthy (JNum 0)
   \<and> getRequestPayload trial_host zero_event_body = Inr [(invalid_body, JUndefined), (JNull, JNum 0)]
   \<and> getRequestPayload trial_host zero_event_body \<noteq> Inr [(invalid_body, JUndefined), (JNull, JUndefined)]
   \<and> handle_request trial_host no_options \<lparr>content_type = Some ''application/json'', body = zero_event_body\<rparr>
       = Inr [Respond 500 (JObj [(''error'', invalid_body)]),
              Invoke (no_options\<lparr>event := EventProducer (Returns (JNum 0))\<rparr>)]"
  by (simp add: getRequestPayload_def handle_request_def on_payload_def handle_error_def
        trial_host_def trial_parse_def zero_event_body_def invalid_body_def)

end
